theory Spec2Isabelle
  imports Main "HOL-Library.AList"
begin

section \<open>The Proxmox provider: a shallow embedding\<close>

text \<open>
  The theory embeds \<^verbatim>\<open>proxmox_api.py\<close>, \<^verbatim>\<open>proxmox_lxc.py\<close> and
  \<^verbatim>\<open>proxmox_vm_qemu.py\<close>. Every function of the client that talks to the
  hypervisor does so through \<^verbatim>\<open>ProxmoxAPI._make_request\<close>; that call is the
  boundary of the model. The remote side is a sequence of outcomes, one per call of
  \<^verbatim>\<open>_make_request\<close>, and the program threads a world that counts the calls made and
  records what it did: the requests, the sleeps and the log entries, in order.
\<close>

subsection \<open>Python strings\<close>

text \<open>
  Strings are lists of ASCII characters. \<^verbatim>\<open>str.lower\<close>, the substring test
  \<^verbatim>\<open>p in s\<close>, \<^verbatim>\<open>str.isdigit\<close>, \<^verbatim>\<open>int(s)\<close> and the
  formatting of an integer in an f-string are the builtins the source uses.
\<close>

definition lower_char :: "char \<Rightarrow> char" where
  "lower_char c =
     (case map_of (zip ''ABCDEFGHIJKLMNOPQRSTUVWXYZ'' ''abcdefghijklmnopqrstuvwxyz'') c of
        Some l \<Rightarrow> l
      | None \<Rightarrow> c)"

definition lower :: "string \<Rightarrow> string" where
  "lower s = map lower_char s"

fun startswith :: "string \<Rightarrow> string \<Rightarrow> bool" where
  "startswith s [] = True"
| "startswith [] (p # ps) = False"
| "startswith (c # s) (p # ps) = (c = p \<and> startswith s ps)"

fun contains :: "string \<Rightarrow> string \<Rightarrow> bool" where
  "contains p [] = (p = [])"
| "contains p (c # s) = (startswith (c # s) p \<or> contains p s)"

definition digit_val :: "char \<Rightarrow> nat option" where
  "digit_val c = map_of (zip ''0123456789'' [0, 1, 2, 3, 4, 5, 6, 7, 8, 9]) c"

definition is_digit :: "char \<Rightarrow> bool" where
  "is_digit c = (digit_val c \<noteq> None)"

definition isdigit :: "string \<Rightarrow> bool" where
  "isdigit s = (s \<noteq> [] \<and> list_all is_digit s)"

definition digits_to_nat :: "string \<Rightarrow> nat" where
  "digits_to_nat s = foldl (\<lambda>acc c. 10 * acc + (case digit_val c of Some d \<Rightarrow> d | None \<Rightarrow> 0)) 0 s"

definition digit_char :: "nat \<Rightarrow> char" where
  "digit_char d = ''0123456789'' ! d"

function str_nat :: "nat \<Rightarrow> string" where
  "str_nat n = (if n < 10 then [digit_char n] else str_nat (n div 10) @ [digit_char (n mod 10)])"
  by pat_completeness auto
termination
  by (relation "measure id") auto

declare str_nat.simps [simp del]

definition str_int :: "int \<Rightarrow> string" where
  "str_int i = (if i < 0 then ''-'' @ str_nat (nat (- i)) else str_nat (nat i))"

text \<open>
  \<^verbatim>\<open>int(s)\<close> on a string: surrounding white space is dropped, one sign is allowed,
  and the digits may be grouped by single underscores.
\<close>

definition is_space :: "char \<Rightarrow> bool" where
  "is_space c =
     (c \<in> set [CHR 0x09, CHR 0x0A, CHR 0x0B, CHR 0x0C, CHR 0x0D,
                CHR 0x1C, CHR 0x1D, CHR 0x1E, CHR 0x1F, CHR 0x20])"

definition strip :: "string \<Rightarrow> string" where
  "strip s = rev (dropWhile is_space (rev (dropWhile is_space s)))"

fun digit_groups :: "string \<Rightarrow> bool" where
  "digit_groups [] = False"
| "digit_groups [c] = is_digit c"
| "digit_groups (c # d # s) =
     (if is_digit c then digit_groups (d # s)
      else c = CHR ''_'' \<and> is_digit d \<and> digit_groups (d # s))"

definition unsigned_of_string :: "string \<Rightarrow> nat option" where
  "unsigned_of_string s =
     (case s of
        [] \<Rightarrow> None
      | c # _ \<Rightarrow> if is_digit c \<and> digit_groups s
                 then Some (digits_to_nat (filter is_digit s)) else None)"

definition int_of_string :: "string \<Rightarrow> int option" where
  "int_of_string s =
     (case strip s of
        [] \<Rightarrow> None
      | c # t \<Rightarrow>
          if c = CHR ''-'' then map_option (\<lambda>n. - int n) (unsigned_of_string t)
          else if c = CHR ''+'' then map_option int (unsigned_of_string t)
          else map_option int (unsigned_of_string (c # t)))"

subsection \<open>Python values\<close>

text \<open>
  Properties are a dictionary from names to values. A value is \<^verbatim>\<open>None\<close>, a boolean,
  an integer, a string, or a dictionary of such values (disks, networks, features). A
  dictionary is the list of its items in insertion order, with distinct keys. Floats
  are not modelled.
\<close>

datatype atom = ANone | ABool bool | AInt int | AStr string

datatype pyval = Atom atom | Dict "(string \<times> atom) list"

datatype error =
    RequestError string
  | KeyError string
  | TypeError
  | ValueError
  | AttributeError

text \<open>
  \<^verbatim>\<open>==\<close>: booleans compare as the integers 0 and 1; two dictionaries are equal when
  every key of either is a key of both, with equal values.
\<close>

fun atom_eq :: "atom \<Rightarrow> atom \<Rightarrow> bool" where
  "atom_eq ANone ANone = True"
| "atom_eq (ABool a) (ABool b) = (a = b)"
| "atom_eq (ABool a) (AInt j) = ((if a then 1 else 0) = j)"
| "atom_eq (AInt i) (ABool b) = (i = (if b then 1 else 0))"
| "atom_eq (AInt i) (AInt j) = (i = j)"
| "atom_eq (AStr s) (AStr t) = (s = t)"
| "atom_eq _ _ = False"

definition dict_eq :: "(string \<times> atom) list \<Rightarrow> (string \<times> atom) list \<Rightarrow> bool" where
  "dict_eq d e =
     list_all
       (\<lambda>k. case map_of d k of
              None \<Rightarrow> False
            | Some v \<Rightarrow> (case map_of e k of None \<Rightarrow> False | Some u \<Rightarrow> atom_eq v u))
       (map fst d @ map fst e)"

fun py_eq :: "pyval \<Rightarrow> pyval \<Rightarrow> bool" where
  "py_eq (Atom a) (Atom b) = atom_eq a b"
| "py_eq (Dict d) (Dict e) = dict_eq d e"
| "py_eq _ _ = False"

text \<open>Truth value, as \<^verbatim>\<open>if v:\<close> and \<^verbatim>\<open>v or d\<close> take it.\<close>

fun atom_truthy :: "atom \<Rightarrow> bool" where
  "atom_truthy ANone = False"
| "atom_truthy (ABool b) = b"
| "atom_truthy (AInt i) = (i \<noteq> 0)"
| "atom_truthy (AStr s) = (s \<noteq> [])"

fun truthy :: "pyval \<Rightarrow> bool" where
  "truthy (Atom a) = atom_truthy a"
| "truthy (Dict d) = (d \<noteq> [])"

text \<open>\<^verbatim>\<open>int(v)\<close>.\<close>

fun atom_int :: "atom \<Rightarrow> error + int" where
  "atom_int ANone = Inl TypeError"
| "atom_int (ABool b) = Inr (if b then 1 else 0)"
| "atom_int (AInt i) = Inr i"
| "atom_int (AStr s) = (case int_of_string s of None \<Rightarrow> Inl ValueError | Some i \<Rightarrow> Inr i)"

fun py_int :: "pyval \<Rightarrow> error + int" where
  "py_int (Atom a) = atom_int a"
| "py_int (Dict d) = Inl TypeError"

text \<open>
  \<^verbatim>\<open>str(v)\<close>, as an f-string formats a value. The rendering of a string inside a
  dictionary is the one of a string without quotes, backslashes or control characters.
\<close>

fun atom_str :: "atom \<Rightarrow> string" where
  "atom_str ANone = ''None''"
| "atom_str (ABool b) = (if b then ''True'' else ''False'')"
| "atom_str (AInt i) = str_int i"
| "atom_str (AStr s) = s"

fun atom_repr :: "atom \<Rightarrow> string" where
  "atom_repr (AStr s) = [CHR 0x27] @ s @ [CHR 0x27]"
| "atom_repr a = atom_str a"

fun join :: "string \<Rightarrow> string list \<Rightarrow> string" where
  "join sep [] = []"
| "join sep [s] = s"
| "join sep (s # t # ss) = s @ sep @ join sep (t # ss)"

fun py_str :: "pyval \<Rightarrow> string" where
  "py_str (Atom a) = atom_str a"
| "py_str (Dict d) =
     ''{'' @ join '', '' (map (\<lambda>(k, v). atom_repr (AStr k) @ '': '' @ atom_repr v) d) @ ''}''"

text \<open>\<^verbatim>\<open>v.items()\<close>: only a dictionary has items.\<close>

fun py_items :: "pyval \<Rightarrow> error + (string \<times> atom) list" where
  "py_items (Dict d) = Inr d"
| "py_items (Atom a) = Inl AttributeError"

type_synonym props = "string \<rightharpoonup> pyval"

text \<open>\<^verbatim>\<open>d.get(k)\<close>, \<^verbatim>\<open>d.get(k, default)\<close> and \<^verbatim>\<open>d[k]\<close>.\<close>

definition get :: "props \<Rightarrow> string \<Rightarrow> pyval" where
  "get d k = (case d k of None \<Rightarrow> Atom ANone | Some v \<Rightarrow> v)"

definition get_or :: "props \<Rightarrow> string \<Rightarrow> pyval \<Rightarrow> pyval" where
  "get_or d k dflt = (case d k of None \<Rightarrow> dflt | Some v \<Rightarrow> v)"

definition item :: "props \<Rightarrow> string \<Rightarrow> error + pyval" where
  "item d k = (case d k of None \<Rightarrow> Inl (KeyError k) | Some v \<Rightarrow> Inr v)"

subsection \<open>The remote side and the world\<close>

text \<open>
  A reply is the parsed JSON object of a successful request. The client reads only its
  \<^verbatim>\<open>data\<close> member, and there only \<^verbatim>\<open>status\<close>; \<open>data\<close> is \<open>None\<close> when
  the reply has no usable \<^verbatim>\<open>data\<close> object and the object's members otherwise. The
  status endpoint answers with an object, so a JSON \<^verbatim>\<open>null\<close> is not a status
  reply of the model. A failed request is the message of its exception,
  \<^verbatim>\<open>str(e)\<close>; that covers a failed authentication inside \<^verbatim>\<open>_make_request\<close>.
\<close>

datatype response = Response (data: "(string \<times> string) list option")

datatype http_method = GET | POST | PUT | DELETE

datatype level = Info | Warn | Error

type_synonym body = "(string \<times> pyval) list"

datatype event =
    Request http_method string "body option"
  | Sleep nat
  | Log level

type_synonym remote = "nat \<Rightarrow> string + response"

record world =
  calls :: nat
  trace :: "event list"

definition log :: "level \<Rightarrow> world \<Rightarrow> world" where
  "log l w = w\<lparr>trace := trace w @ [Log l]\<rparr>"

definition sleep :: "nat \<Rightarrow> world \<Rightarrow> world" where
  "sleep s w = w\<lparr>trace := trace w @ [Sleep s]\<rparr>"

text \<open>
  \<^verbatim>\<open>_make_request(method, path, data)\<close>: the outcome is the next one of the remote
  side. The log entries the transport writes on a failure stay inside the boundary.
\<close>

definition make_request ::
  "remote \<Rightarrow> http_method \<Rightarrow> string \<Rightarrow> body option \<Rightarrow> world \<Rightarrow> (string + response) \<times> world" where
  "make_request srv m path dat w =
     (srv (calls w), w\<lparr>calls := Suc (calls w), trace := trace w @ [Request m path dat]\<rparr>)"

text \<open>\<^verbatim>\<open>result.get("data", {})\<close> and \<^verbatim>\<open>d.get("status", "unknown")\<close>.\<close>

definition data_of :: "response \<Rightarrow> (string \<times> string) list" where
  "data_of r = (case data r of None \<Rightarrow> [] | Some d \<Rightarrow> d)"

definition status_of :: "(string \<times> string) list \<Rightarrow> string" where
  "status_of d = (case map_of d ''status'' of None \<Rightarrow> ''unknown'' | Some s \<Rightarrow> s)"

subsection \<open>The API client\<close>

definition lxc_path :: "string \<Rightarrow> int \<Rightarrow> string \<Rightarrow> string" where
  "lxc_path node vm_id rest = ''nodes/'' @ node @ ''/lxc/'' @ str_int vm_id @ rest"

text \<open>\<^verbatim>\<open>get_lxc\<close>: any failure is logged and gives the empty dictionary.\<close>

definition get_lxc :: "remote \<Rightarrow> string \<Rightarrow> pyval \<Rightarrow> world \<Rightarrow> (string \<times> string) list \<times> world" where
  "get_lxc srv node vm_id w =
     (case py_int vm_id of
        Inl e \<Rightarrow> ([], log Warn w)
      | Inr n \<Rightarrow>
          (case make_request srv GET (lxc_path node n ''/status/current'') None w of
             (Inl e, w1) \<Rightarrow> ([], log Warn w1)
           | (Inr result, w1) \<Rightarrow> (data_of result, w1)))"

text \<open>
  \<^verbatim>\<open>_wait_for_lxc_unlock(vm_id, max_retries)\<close>. The loop variable only numbers the
  log lines, so the recursion runs on the attempts that remain.
\<close>

definition lock_error :: "string \<Rightarrow> bool" where
  "lock_error e = (contains ''timeout'' (lower e) \<or> contains ''lock'' (lower e))"

fun wait_for_lxc_unlock :: "remote \<Rightarrow> string \<Rightarrow> int \<Rightarrow> nat \<Rightarrow> world \<Rightarrow> bool \<times> world" where
  "wait_for_lxc_unlock srv node vm_id 0 w = (False, log Warn w)"
| "wait_for_lxc_unlock srv node vm_id (Suc k) w =
     (case make_request srv GET (lxc_path node vm_id ''/status/current'') None w of
        (Inr result, w1) \<Rightarrow> (True, log Info w1)
      | (Inl e, w1) \<Rightarrow>
          if lock_error e
          then wait_for_lxc_unlock srv node vm_id k (sleep 1 (log Info w1))
          else (True, log Warn w1))"

text \<open>\<^verbatim>\<open>_wait_for_lxc_stop(vm_id, max_retries)\<close>.\<close>

fun wait_for_lxc_stop :: "remote \<Rightarrow> string \<Rightarrow> int \<Rightarrow> nat \<Rightarrow> world \<Rightarrow> bool \<times> world" where
  "wait_for_lxc_stop srv node vm_id 0 w = (False, log Warn w)"
| "wait_for_lxc_stop srv node vm_id (Suc k) w =
     (case make_request srv GET (lxc_path node vm_id ''/status/current'') None w of
        (Inr result, w1) \<Rightarrow>
          (let status = status_of (data_of result);
               w2 = log Info w1
           in if status = ''stopped'' then (True, log Info w2)
              else wait_for_lxc_stop srv node vm_id k (sleep 1 w2))
      | (Inl e, w1) \<Rightarrow> wait_for_lxc_stop srv node vm_id k (sleep 1 (log Warn w1)))"

text \<open>
  \<^verbatim>\<open>_resize_lxc_disk(vm_id, disk_name, disk_config)\<close>. A configuration that is
  empty or not a string returns \<^verbatim>\<open>{}\<close> silently; one without a colon, or whose
  part after the first colon is not a digit string, is logged and returns \<^verbatim>\<open>{}\<close>.
\<close>

definition split_colon :: "string \<Rightarrow> string \<times> string" where
  "split_colon s =
     (takeWhile (\<lambda>c. c \<noteq> CHR '':'') s, tl (dropWhile (\<lambda>c. c \<noteq> CHR '':'') s))"

definition resize_params :: "string \<Rightarrow> nat \<Rightarrow> body" where
  "resize_params disk_name new_size_gb =
     [(''disk'', Atom (AStr disk_name)), (''size'', Atom (AStr (str_nat new_size_gb @ ''G'')))]"

definition resize_lxc_disk ::
  "remote \<Rightarrow> string \<Rightarrow> int \<Rightarrow> string \<Rightarrow> atom \<Rightarrow> world \<Rightarrow> (error + response) \<times> world" where
  "resize_lxc_disk srv node vm_id disk_name disk_config w =
     (case disk_config of
        AStr s \<Rightarrow>
          if s = [] then (Inr (Response None), w)
          else if CHR '':'' \<notin> set s then (Inr (Response None), log Warn w)
          else
            (let size_part = snd (split_colon s) in
             if \<not> isdigit size_part then (Inr (Response None), log Warn w)
             else
               (let new_size_gb = digits_to_nat size_part;
                    w1 = log Info w
                in case make_request srv PUT (lxc_path node vm_id ''/resize'')
                          (Some (resize_params disk_name new_size_gb)) w1 of
                     (Inr result, w2) \<Rightarrow> (Inr result, log Info w2)
                   | (Inl e, w2) \<Rightarrow> (Inl (RequestError e), log Error w2)))
      | _ \<Rightarrow> (Inr (Response None), w))"

text \<open>
  \<^verbatim>\<open>update_lxc(vm_id, **params)\<close>. The keyword arguments are a dictionary; the
  body of the configuration request is built key by key, and what a step raises ends
  the call. What the client returns is a reply of the remote side or the literal
  \<^verbatim>\<open>{"data": None}\<close> it builds itself.
\<close>

datatype api_result = Reply response | NullData

definition bind_err :: "error + 'a \<Rightarrow> ('a \<Rightarrow> error + 'b) \<Rightarrow> error + 'b" where
  "bind_err r f = (case r of Inl e \<Rightarrow> Inl e | Inr x \<Rightarrow> f x)"

definition kw_get :: "(string \<times> pyval) list \<Rightarrow> string \<Rightarrow> pyval \<Rightarrow> pyval" where
  "kw_get params k dflt = (case map_of params k of None \<Rightarrow> dflt | Some v \<Rightarrow> v)"

definition set_int :: "(string \<times> pyval) list \<Rightarrow> string \<Rightarrow> body \<Rightarrow> error + body" where
  "set_int params k lxc_params =
     (case map_of params k of
        None \<Rightarrow> Inr lxc_params
      | Some v \<Rightarrow> bind_err (py_int v) (\<lambda>i. Inr (AList.update k (Atom (AInt i)) lxc_params)))"

definition set_plain :: "(string \<times> pyval) list \<Rightarrow> string \<Rightarrow> body \<Rightarrow> body" where
  "set_plain params k lxc_params =
     (case map_of params k of
        None \<Rightarrow> lxc_params
      | Some v \<Rightarrow> AList.update k v lxc_params)"

definition set_items :: "(string \<times> atom) list \<Rightarrow> body \<Rightarrow> body" where
  "set_items d lxc_params = foldl (\<lambda>acc (k, v). AList.update k (Atom v) acc) lxc_params d"

definition features_str :: "(string \<times> atom) list \<Rightarrow> string" where
  "features_str d = join '','' (map (\<lambda>(k, v). k @ ''='' @ atom_str v) d)"

text \<open>Lines 291 to 298: cores, memory, swap and hostname.\<close>

definition update_scalars :: "(string \<times> pyval) list \<Rightarrow> error + body" where
  "update_scalars params =
     bind_err (set_int params ''cores'' []) (\<lambda>p1.
     bind_err (set_int params ''memory'' p1) (\<lambda>p2.
     bind_err (set_int params ''swap'' p2) (\<lambda>p3.
     Inr (set_plain params ''hostname'' p3))))"

text \<open>Lines 300 to 308: one resize per disk of the dictionary; a failed one is logged.\<close>

fun resize_each ::
  "remote \<Rightarrow> string \<Rightarrow> int \<Rightarrow> (string \<times> atom) list \<Rightarrow> world \<Rightarrow> world" where
  "resize_each srv node vm_id [] w = w"
| "resize_each srv node vm_id ((disk_name, disk_config) # ds) w =
     (case resize_lxc_disk srv node vm_id disk_name disk_config w of
        (Inl e, w1) \<Rightarrow> resize_each srv node vm_id ds (log Warn w1)
      | (Inr r, w1) \<Rightarrow> resize_each srv node vm_id ds w1)"

definition update_disks ::
  "remote \<Rightarrow> string \<Rightarrow> int \<Rightarrow> (string \<times> pyval) list \<Rightarrow> world \<Rightarrow> (error + unit) \<times> world" where
  "update_disks srv node vm_id params w =
     (case map_of params ''disks'' of
        None \<Rightarrow> (Inr (), w)
      | Some disks \<Rightarrow>
          (case py_items disks of
             Inl e \<Rightarrow> (Inl e, w)
           | Inr d \<Rightarrow> (Inr (), resize_each srv node vm_id d w)))"

text \<open>Lines 310 to 330: networks, features, startup and onboot.\<close>

definition update_networks :: "(string \<times> pyval) list \<Rightarrow> body \<Rightarrow> error + body" where
  "update_networks params lxc_params =
     (case map_of params ''networks'' of
        None \<Rightarrow> Inr lxc_params
      | Some networks \<Rightarrow> bind_err (py_items networks) (\<lambda>d. Inr (set_items d lxc_params)))"

definition update_features :: "(string \<times> pyval) list \<Rightarrow> body \<Rightarrow> error + body" where
  "update_features params lxc_params =
     (case map_of params ''features'' of
        None \<Rightarrow> Inr lxc_params
      | Some features \<Rightarrow>
          if truthy features
          then bind_err (py_items features) (\<lambda>d.
                 Inr (AList.update ''features'' (Atom (AStr (features_str d))) lxc_params))
          else Inr lxc_params)"

definition update_onboot :: "(string \<times> pyval) list \<Rightarrow> body \<Rightarrow> body" where
  "update_onboot params lxc_params =
     (case map_of params ''onboot'' of
        None \<Rightarrow> lxc_params
      | Some v \<Rightarrow> AList.update ''onboot'' (Atom (AInt (if truthy v then 1 else 0))) lxc_params)"

definition update_rest :: "(string \<times> pyval) list \<Rightarrow> body \<Rightarrow> error + body" where
  "update_rest params p4 =
     bind_err (update_networks params p4) (\<lambda>p5.
     bind_err (update_features params p5) (\<lambda>p6.
     Inr (update_onboot params (set_plain params ''startup'' p6))))"

definition update_lxc ::
  "remote \<Rightarrow> string \<Rightarrow> int \<Rightarrow> (string \<times> pyval) list \<Rightarrow> world \<Rightarrow> (error + api_result) \<times> world" where
  "update_lxc srv node vm_id params w =
     (let w0 = log Info w in
      case update_scalars params of
        Inl e \<Rightarrow> (Inl e, w0)
      | Inr p4 \<Rightarrow>
          (case update_disks srv node vm_id params w0 of
             (Inl e, w1) \<Rightarrow> (Inl e, w1)
           | (Inr u, w1) \<Rightarrow>
               (case update_rest params p4 of
                  Inl e \<Rightarrow> (Inl e, w1)
                | Inr lxc_params \<Rightarrow>
                    (let w2 = log Info w1 in
                     if lxc_params \<noteq> []
                     then (case make_request srv PUT (lxc_path node vm_id ''/config'')
                                  (Some lxc_params) w2 of
                             (Inl e, w3) \<Rightarrow> (Inl (RequestError e), w3)
                           | (Inr result, w3) \<Rightarrow> (Inr (Reply result), log Info w3))
                     else (Inr NullData, log Info w2)))))"

text \<open>
  \<^verbatim>\<open>delete_lxc(vm_id)\<close>, in the three parts of its body. Lines 410 to 435 read the
  status and stop a running container; nothing there raises in the model, so the
  handler of line 434 is not reached.
\<close>

definition stop_before_delete :: "remote \<Rightarrow> string \<Rightarrow> int \<Rightarrow> world \<Rightarrow> world" where
  "stop_before_delete srv node vm_id w =
     (case get_lxc srv node (Atom (AInt vm_id)) w of
        (current_status, w1) \<Rightarrow>
          (let status = status_of current_status;
               w2 = log Info w1
           in if status = ''running''
              then
                (let w3 = log Info w2;
                     w4 = (case make_request srv POST (lxc_path node vm_id ''/status/stop'') None w3 of
                             (Inr r, w') \<Rightarrow> log Info w'
                           | (Inl e, w') \<Rightarrow> log Error w')
                 in case wait_for_lxc_stop srv node vm_id 60 w4 of
                      (stopped, w5) \<Rightarrow>
                        if \<not> stopped
                        then
                          (let w6 = log Warn w5 in
                           case make_request srv POST (lxc_path node vm_id ''/status/shutdown'') None w6 of
                             (Inr r, w7) \<Rightarrow> snd (wait_for_lxc_stop srv node vm_id 30 w7)
                           | (Inl e, w7) \<Rightarrow> log Error w7)
                        else w5)
              else w2))"

text \<open>Lines 459 to 471: the status check before a retry; what it raises is dropped.\<close>

definition check_before_retry :: "remote \<Rightarrow> string \<Rightarrow> int \<Rightarrow> world \<Rightarrow> world" where
  "check_before_retry srv node vm_id w =
     (case get_lxc srv node (Atom (AInt vm_id)) w of
        (current_status, w1) \<Rightarrow>
          (let status = status_of current_status;
               w2 = log Info w1
           in if status = ''running''
              then
                (let w3 = log Warn w2 in
                 case make_request srv POST (lxc_path node vm_id ''/status/shutdown'') None w3 of
                   (Inr r, w4) \<Rightarrow> snd (wait_for_lxc_stop srv node vm_id 15 w4)
                 | (Inl e, w4) \<Rightarrow> w4)
              else w2))"

text \<open>
  Lines 440 to 480: the retry loop, \<open>attempt\<close> counting up from 0 while the second
  number, the iterations that remain, counts down.
\<close>

definition max_delete_retries :: nat where
  "max_delete_retries = 10"

definition retryable :: "string \<Rightarrow> bool" where
  "retryable error_msg =
     (contains ''container is running'' error_msg \<or> contains ''timeout'' error_msg
      \<or> contains ''lock'' error_msg)"

fun delete_loop ::
  "remote \<Rightarrow> string \<Rightarrow> int \<Rightarrow> nat \<Rightarrow> nat \<Rightarrow> world \<Rightarrow> (error + api_result) \<times> world" where
  "delete_loop srv node vm_id attempt 0 w = (Inr NullData, w)"
| "delete_loop srv node vm_id attempt (Suc k) w =
     (case make_request srv DELETE (lxc_path node vm_id []) None w of
        (Inr result, w1) \<Rightarrow> (Inr (Reply result), log Info w1)
      | (Inl e, w1) \<Rightarrow>
          (let error_msg = lower e in
           if retryable error_msg \<and> attempt < max_delete_retries - 1
           then
             (let wait_time = (attempt + 1) * 3;
                  w2 = log Warn w1;
                  w3 = check_before_retry srv node vm_id w2
              in delete_loop srv node vm_id (Suc attempt) k (sleep wait_time w3))
           else (Inl (RequestError e), log Error w1)))"

definition delete_lxc ::
  "remote \<Rightarrow> string \<Rightarrow> int \<Rightarrow> world \<Rightarrow> (error + api_result) \<times> world" where
  "delete_lxc srv node vm_id w =
     (let w1 = log Info w;
          w2 = snd (wait_for_lxc_unlock srv node vm_id 30 w1);
          w3 = stop_before_delete srv node vm_id w2;
          w4 = snd (wait_for_lxc_unlock srv node vm_id 30 w3)
      in delete_loop srv node vm_id 0 max_delete_retries w4)"

text \<open>
  \<^verbatim>\<open>create_lxc(vm_id, **params)\<close>: the parameter set of the create request, then
  the request. Lines 194 to 201 build the six base parameters; the conversions are
  made in the order of the dictionary literal.
\<close>

definition create_base :: "pyval \<Rightarrow> (string \<times> pyval) list \<Rightarrow> error + body" where
  "create_base vm_id params =
     bind_err (py_int vm_id) (\<lambda>vmid.
     bind_err (py_int (kw_get params ''cores'' (Atom (AInt 1)))) (\<lambda>cores.
     bind_err (py_int (kw_get params ''memory'' (Atom (AInt 512)))) (\<lambda>memory.
     bind_err (py_int (kw_get params ''swap'' (Atom (AInt 512)))) (\<lambda>swap.
     bind_err (py_int (kw_get params ''unprivileged'' (Atom (ABool True)))) (\<lambda>unprivileged.
     Inr [(''vmid'', Atom (AInt vmid)),
          (''cores'', Atom (AInt cores)),
          (''memory'', Atom (AInt memory)),
          (''swap'', Atom (AInt swap)),
          (''hostname'', kw_get params ''hostname'' (Atom (AStr (''lxc-'' @ py_str vm_id)))),
          (''unprivileged'', Atom (AInt unprivileged))])))))"

text \<open>\<^verbatim>\<open>if params.get(k): lxc_params[name] = params[k]\<close>.\<close>

definition set_truthy :: "(string \<times> pyval) list \<Rightarrow> string \<Rightarrow> string \<Rightarrow> body \<Rightarrow> body" where
  "set_truthy params k name lxc_params =
     (let v = kw_get params k (Atom ANone)
      in if truthy v then AList.update name v lxc_params else lxc_params)"

definition create_items :: "(string \<times> pyval) list \<Rightarrow> string \<Rightarrow> body \<Rightarrow> error + body" where
  "create_items params k lxc_params =
     bind_err (py_items (kw_get params k (Dict []))) (\<lambda>d. Inr (set_items d lxc_params))"

definition create_features :: "(string \<times> pyval) list \<Rightarrow> body \<Rightarrow> error + body" where
  "create_features params lxc_params =
     (let features = kw_get params ''features'' (Dict [])
      in if truthy features
         then bind_err (py_items features) (\<lambda>d.
                Inr (AList.update ''features'' (Atom (AStr (features_str d))) lxc_params))
         else Inr lxc_params)"

definition create_onboot :: "(string \<times> pyval) list \<Rightarrow> body \<Rightarrow> body" where
  "create_onboot params lxc_params =
     (let v = kw_get params ''onboot'' (Atom ANone)
      in if v \<noteq> Atom ANone
         then AList.update ''onboot'' (Atom (AInt (if truthy v then 1 else 0))) lxc_params
         else lxc_params)"

definition create_params :: "pyval \<Rightarrow> (string \<times> pyval) list \<Rightarrow> error + body" where
  "create_params vm_id params =
     bind_err (create_base vm_id params) (\<lambda>p0.
     bind_err (create_items params ''disks''
                 (set_truthy params ''ssh_public_keys'' ''ssh-public-keys''
                    (set_truthy params ''password'' ''password''
                       (set_truthy params ''ostemplate'' ''ostemplate'' p0)))) (\<lambda>p1.
     bind_err (create_items params ''networks'' p1) (\<lambda>p2.
     bind_err (create_features params p2) (\<lambda>p3.
     Inr (create_onboot params (set_truthy params ''startup'' ''startup'' p3))))))"

definition create_lxc ::
  "remote \<Rightarrow> string \<Rightarrow> pyval \<Rightarrow> (string \<times> pyval) list \<Rightarrow> world \<Rightarrow> (error + response) \<times> world" where
  "create_lxc srv node vm_id params w =
     (let w0 = log Info w in
      case create_params vm_id params of
        Inl e \<Rightarrow> (Inl e, w0)
      | Inr lxc_params \<Rightarrow>
          (let w1 = log Info (log Info w0) in
           case make_request srv POST (''nodes/'' @ node @ ''/lxc'') (Some lxc_params) w1 of
             (Inl e, w2) \<Rightarrow> (Inl (RequestError e), w2)
           | (Inr result, w2) \<Rightarrow> (Inr result, log Info w2)))"


text \<open>\<^verbatim>\<open>create_vm\<close> and \<^verbatim>\<open>get_vm\<close>, the same for a virtual machine.\<close>

definition vm_base :: "pyval \<Rightarrow> (string \<times> pyval) list \<Rightarrow> error + body" where
  "vm_base vm_id params =
     bind_err (py_int vm_id) (\<lambda>vmid.
     bind_err (py_int (kw_get params ''cores'' (Atom (AInt 1)))) (\<lambda>cores.
     bind_err (py_int (kw_get params ''memory'' (Atom (AInt 512)))) (\<lambda>memory.
     Inr [(''vmid'', Atom (AInt vmid)),
          (''cores'', Atom (AInt cores)),
          (''memory'', Atom (AInt memory)),
          (''name'', kw_get params ''name'' (Atom (AStr (''vm-'' @ py_str vm_id))))])))"

definition vm_params :: "pyval \<Rightarrow> (string \<times> pyval) list \<Rightarrow> error + body" where
  "vm_params vm_id params =
     bind_err (vm_base vm_id params) (\<lambda>p0.
     bind_err (create_items params ''disks'' p0) (\<lambda>p1.
     create_items params ''networks'' p1))"

definition create_vm ::
  "remote \<Rightarrow> string \<Rightarrow> pyval \<Rightarrow> (string \<times> pyval) list \<Rightarrow> world \<Rightarrow> (error + response) \<times> world" where
  "create_vm srv node vm_id params w =
     (let w0 = log Info w in
      case vm_params vm_id params of
        Inl e \<Rightarrow> (Inl e, w0)
      | Inr p \<Rightarrow>
          (let w1 = log Info w0 in
           case make_request srv POST (''nodes/'' @ node @ ''/qemu'') (Some p) w1 of
             (Inl e, w2) \<Rightarrow> (Inl (RequestError e), w2)
           | (Inr result, w2) \<Rightarrow> (Inr result, log Info w2)))"

definition get_vm :: "remote \<Rightarrow> string \<Rightarrow> pyval \<Rightarrow> world \<Rightarrow> (string \<times> string) list \<times> world" where
  "get_vm srv node vm_id w =
     (case py_int vm_id of
        Inl e \<Rightarrow> ([], log Warn w)
      | Inr n \<Rightarrow>
          (case make_request srv GET (''nodes/'' @ node @ ''/qemu/'' @ str_int n @ ''/status/current'') None w of
             (Inl e, w1) \<Rightarrow> ([], log Warn w1)
           | (Inr result, w1) \<Rightarrow> (data_of result, w1)))"

subsection \<open>The container provider\<close>

text \<open>
  The methods of \<^verbatim>\<open>LXCContainerProvider\<close>. Each builds its client from the
  properties first; \<open>node\<close> is the node of that client, and \<open>vm_id\<close> in
  \<^verbatim>\<open>update\<close> and \<^verbatim>\<open>delete\<close> is the number \<^verbatim>\<open>int(float(id_))\<close>. What the
  body raises is logged and raised again.
\<close>

definition create_kwargs :: "props \<Rightarrow> pyval \<Rightarrow> (string \<times> pyval) list" where
  "create_kwargs props vm_id =
     [(''hostname'', get_or props ''hostname'' (Atom (AStr (''lxc-'' @ py_str vm_id)))),
      (''cores'', get_or props ''cores'' (Atom (AInt 1))),
      (''memory'', get_or props ''memory'' (Atom (AInt 512))),
      (''swap'', get_or props ''swap'' (Atom (AInt 512))),
      (''disks'', get_or props ''disks'' (Dict [])),
      (''networks'', get_or props ''networks'' (Dict [])),
      (''ostemplate'', get props ''ostemplate''),
      (''password'', get props ''password''),
      (''ssh_public_keys'', get props ''ssh_public_keys''),
      (''unprivileged'', get_or props ''unprivileged'' (Atom (ABool True))),
      (''features'', get_or props ''features'' (Dict [])),
      (''startup'', get props ''startup''),
      (''onboot'', get props ''onboot'')]"




text \<open>Lines 172 to 190 of \<^verbatim>\<open>update\<close>: the changed fields, in the order of the source.\<close>

definition diff_field ::
  "props \<Rightarrow> props \<Rightarrow> string \<Rightarrow> (string \<times> pyval) list \<Rightarrow> error + (string \<times> pyval) list" where
  "diff_field new_props old_props k update_params =
     (if \<not> py_eq (get new_props k) (get old_props k)
      then bind_err (item new_props k) (\<lambda>v. Inr (AList.update k v update_params))
      else Inr update_params)"

definition diff_params :: "props \<Rightarrow> props \<Rightarrow> error + (string \<times> pyval) list" where
  "diff_params new_props old_props =
     bind_err (diff_field new_props old_props ''cores'' []) (\<lambda>u1.
     bind_err (diff_field new_props old_props ''memory'' u1) (\<lambda>u2.
     bind_err (diff_field new_props old_props ''swap'' u2) (\<lambda>u3.
     bind_err (diff_field new_props old_props ''hostname'' u3) (\<lambda>u4.
     bind_err (diff_field new_props old_props ''disks'' u4) (\<lambda>u5.
     bind_err (diff_field new_props old_props ''networks'' u5) (\<lambda>u6.
     bind_err (diff_field new_props old_props ''features'' u6) (\<lambda>u7.
     bind_err (diff_field new_props old_props ''startup'' u7) (\<lambda>u8.
     diff_field new_props old_props ''onboot'' u8))))))))"

definition provider_update ::
  "remote \<Rightarrow> string \<Rightarrow> int \<Rightarrow> props \<Rightarrow> props \<Rightarrow> world \<Rightarrow> (error + props) \<times> world" where
  "provider_update srv node vm_id old_props new_props w =
     (case diff_params new_props old_props of
        Inl e \<Rightarrow> (Inl e, log Error w)
      | Inr update_params \<Rightarrow>
          (case (if update_params \<noteq> []
                 then update_lxc srv node vm_id update_params w
                 else (Inr NullData, w)) of
             (Inl e, w1) \<Rightarrow> (Inl e, log Error w1)
           | (Inr r, w1) \<Rightarrow>
               (case get_lxc srv node (Atom (AInt vm_id)) w1 of
                  (lxc_info, w2) \<Rightarrow>
                    (Inr ((old_props ++ new_props)(''status'' \<mapsto> Atom (AStr (status_of lxc_info)))),
                     log Info w2))))"

definition provider_delete ::
  "remote \<Rightarrow> string \<Rightarrow> int \<Rightarrow> world \<Rightarrow> (error + unit) \<times> world" where
  "provider_delete srv node vm_id w =
     (case delete_lxc srv node vm_id w of
        (Inl e, w1) \<Rightarrow> (Inl e, log Error w1)
      | (Inr r, w1) \<Rightarrow> (Inr (), log Info w1))"

subsection \<open>The resource arguments\<close>

text \<open>
  \<^verbatim>\<open>LXCContainerArgs.__init__\<close> takes the arguments as annotated and sets the
  attributes of the object; \<^verbatim>\<open>LXCContainer.__init__\<close> puts them, with the five
  entries of the ambient configuration, into the properties and drops every
  \<^verbatim>\<open>None\<close>.
\<close>

record lxc_container_args =
  arg_node :: string
  arg_vm_id :: "int option"
  arg_hostname :: "string option"
  arg_template :: "string option"
  arg_cores :: "int option"
  arg_memory :: "int option"
  arg_swap :: "int option"
  arg_disks :: "(string \<times> string) list option"
  arg_networks :: "(string \<times> string) list option"
  arg_disk_size :: "string option"
  arg_network :: "string option"
  arg_ostemplate :: "string option"
  arg_password :: "string option"
  arg_ssh_public_keys :: "string option"
  arg_unprivileged :: "bool option"
  arg_features :: "(string \<times> string) list option"
  arg_startup :: "string option"
  arg_onboot :: "bool option"
  arg_start_on_create :: "bool option"

record proxmox_config =
  cfg_endpoint :: string
  cfg_username :: string
  cfg_password :: string
  cfg_node :: "string option"
  cfg_insecure :: "bool option"

definition opt_int :: "int option \<Rightarrow> pyval" where
  "opt_int v = (case v of None \<Rightarrow> Atom ANone | Some i \<Rightarrow> Atom (AInt i))"

definition opt_str :: "string option \<Rightarrow> pyval" where
  "opt_str v = (case v of None \<Rightarrow> Atom ANone | Some s \<Rightarrow> Atom (AStr s))"

definition opt_bool :: "bool option \<Rightarrow> pyval" where
  "opt_bool v = (case v of None \<Rightarrow> Atom ANone | Some b \<Rightarrow> Atom (ABool b))"

definition str_dict :: "(string \<times> string) list \<Rightarrow> pyval" where
  "str_dict d = Dict (map (\<lambda>(k, v). (k, AStr v)) d)"

text \<open>\<^verbatim>\<open>v or d\<close> on an optional integer.\<close>

definition int_or :: "int option \<Rightarrow> int \<Rightarrow> int" where
  "int_or v d = (case v of None \<Rightarrow> d | Some i \<Rightarrow> if i = 0 then d else i)"

text \<open>\<^verbatim>\<open>disk_size.replace("G", "").replace("g", "")\<close>.\<close>

definition drop_g :: "string \<Rightarrow> string" where
  "drop_g disk_size = filter (\<lambda>c. c \<noteq> CHR ''g'') (filter (\<lambda>c. c \<noteq> CHR ''G'') disk_size)"

definition disks_attr :: "(string \<times> string) list option \<Rightarrow> string option \<Rightarrow> string \<Rightarrow> string \<Rightarrow> pyval" where
  "disks_attr disks disk_size slot dflt =
     (case disks of
        Some d \<Rightarrow> str_dict d
      | None \<Rightarrow>
          (case disk_size of
             Some s \<Rightarrow> Dict [(slot, AStr (''local-lvm:'' @ drop_g s))]
           | None \<Rightarrow> Dict [(slot, AStr dflt)]))"

definition networks_attr :: "(string \<times> string) list option \<Rightarrow> string option \<Rightarrow> string \<Rightarrow> pyval" where
  "networks_attr networks network dflt =
     (case networks of
        Some d \<Rightarrow> str_dict d
      | None \<Rightarrow>
          (case network of
             Some s \<Rightarrow> Dict [(''net0'', AStr s)]
           | None \<Rightarrow> Dict [(''net0'', AStr dflt)]))"

definition LXCContainerArgs :: "lxc_container_args \<Rightarrow> (string \<times> pyval) list" where
  "LXCContainerArgs a =
     [(''node'', Atom (AStr (arg_node a))),
      (''vm_id'', opt_int (arg_vm_id a)),
      (''hostname'', opt_str (arg_hostname a)),
      (''template'', opt_str (arg_template a)),
      (''cores'', Atom (AInt (int_or (arg_cores a) 1))),
      (''memory'', Atom (AInt (int_or (arg_memory a) 512))),
      (''swap'', Atom (AInt (int_or (arg_swap a) 512))),
      (''disks'', disks_attr (arg_disks a) (arg_disk_size a) ''rootfs'' ''local-lvm:8''),
      (''networks'', networks_attr (arg_networks a) (arg_network a) ''name=eth0,bridge=vmbr0,ip=dhcp''),
      (''ostemplate'', opt_str (arg_ostemplate a)),
      (''password'', opt_str (arg_password a)),
      (''ssh_public_keys'', opt_str (arg_ssh_public_keys a)),
      (''unprivileged'', Atom (ABool (case arg_unprivileged a of None \<Rightarrow> True | Some b \<Rightarrow> b))),
      (''features'', (case arg_features a of None \<Rightarrow> Dict [] | Some d \<Rightarrow> str_dict d)),
      (''startup'', opt_str (arg_startup a)),
      (''onboot'', opt_bool (arg_onboot a)),
      (''start_on_create'', Atom (ABool (case arg_start_on_create a of None \<Rightarrow> True | Some b \<Rightarrow> b)))]"

definition config_entries :: "proxmox_config \<Rightarrow> (string \<times> pyval) list" where
  "config_entries cfg =
     [(''proxmox_endpoint'', Atom (AStr (cfg_endpoint cfg))),
      (''proxmox_username'', Atom (AStr (cfg_username cfg))),
      (''proxmox_password'', Atom (AStr (cfg_password cfg))),
      (''proxmox_node'', Atom (AStr (case cfg_node cfg of None \<Rightarrow> ''pve'' | Some n \<Rightarrow> n))),
      (''proxmox_insecure'', Atom (ABool (case cfg_insecure cfg of None \<Rightarrow> False | Some b \<Rightarrow> b)))]"

definition remove_none :: "(string \<times> pyval) list \<Rightarrow> props" where
  "remove_none kvs = map_of (filter (\<lambda>(k, v). v \<noteq> Atom ANone) kvs)"

definition LXCContainer :: "proxmox_config \<Rightarrow> (string \<times> pyval) list \<Rightarrow> props" where
  "LXCContainer cfg args = remove_none (args @ config_entries cfg)"

text \<open>The virtual machine: \<^verbatim>\<open>VirtualMachineArgs\<close>, \<^verbatim>\<open>VirtualMachine\<close> and the provider's \<^verbatim>\<open>create\<close>.\<close>

record virtual_machine_args =
  vma_node :: string
  vma_vm_id :: "int option"
  vma_name :: "string option"
  vma_template :: "string option"
  vma_cores :: "int option"
  vma_memory :: "int option"
  vma_disks :: "(string \<times> string) list option"
  vma_networks :: "(string \<times> string) list option"
  vma_disk_size :: "string option"
  vma_network :: "string option"
  vma_ssh_keys :: "string option"
  vma_ip_config :: "string option"
  vma_user :: "string option"
  vma_password :: "string option"

definition VirtualMachineArgs :: "virtual_machine_args \<Rightarrow> (string \<times> pyval) list" where
  "VirtualMachineArgs a =
     [(''node'', Atom (AStr (vma_node a))),
      (''vm_id'', opt_int (vma_vm_id a)),
      (''name'', opt_str (vma_name a)),
      (''template'', opt_str (vma_template a)),
      (''cores'', Atom (AInt (int_or (vma_cores a) 1))),
      (''memory'', Atom (AInt (int_or (vma_memory a) 512))),
      (''disks'', disks_attr (vma_disks a) (vma_disk_size a) ''scsi0'' ''local-lvm:20''),
      (''networks'', networks_attr (vma_networks a) (vma_network a) ''virtio,bridge=vmbr0''),
      (''ssh_keys'', opt_str (vma_ssh_keys a)),
      (''ip_config'', opt_str (vma_ip_config a)),
      (''user'', opt_str (vma_user a)),
      (''password'', opt_str (vma_password a))]"

definition VirtualMachine :: "proxmox_config \<Rightarrow> (string \<times> pyval) list \<Rightarrow> props" where
  "VirtualMachine cfg args = remove_none (args @ config_entries cfg)"

definition vm_kwargs :: "props \<Rightarrow> pyval \<Rightarrow> (string \<times> pyval) list" where
  "vm_kwargs props vm_id =
     [(''cores'', get_or props ''cores'' (Atom (AInt 1))),
      (''memory'', get_or props ''memory'' (Atom (AInt 512))),
      (''name'', get_or props ''name'' (Atom (AStr (''vm-'' @ py_str vm_id)))),
      (''disks'', get_or props ''disks'' (Dict [])),
      (''networks'', get_or props ''networks'' (Dict []))]"

definition vm_outputs ::
  "props \<Rightarrow> pyval \<Rightarrow> pyval \<Rightarrow> (string \<times> string) list \<Rightarrow> (string \<times> pyval) list" where
  "vm_outputs props vm_id node_prop vm_info =
     [(''vm_id'', vm_id),
      (''node'', node_prop),
      (''name'', get_or props ''name'' (Atom (AStr (''vm-'' @ py_str vm_id)))),
      (''status'', Atom (AStr (status_of vm_info))),
      (''cores'', get_or props ''cores'' (Atom (AInt 1))),
      (''memory'', get_or props ''memory'' (Atom (AInt 512))),
      (''disks'', get_or props ''disks'' (Dict [])),
      (''networks'', get_or props ''networks'' (Dict [])),
      (''proxmox_endpoint'', get props ''proxmox_endpoint''),
      (''proxmox_node'', get props ''proxmox_node''),
      (''proxmox_insecure'', get props ''proxmox_insecure'')]"

definition vm_provider_create ::
  "remote \<Rightarrow> string \<Rightarrow> props \<Rightarrow> world \<Rightarrow> (error + string \<times> (string \<times> pyval) list) \<times> world" where
  "vm_provider_create srv node props w =
     (let vm_id = (if truthy (get props ''vm_id'') then get props ''vm_id'' else Atom (AInt 100))
      in case create_vm srv node vm_id (vm_kwargs props vm_id) w of
           (Inl e, w1) \<Rightarrow> (Inl e, log Error w1)
         | (Inr r, w1) \<Rightarrow>
             (case get_vm srv node vm_id w1 of
                (vm_info, w2) \<Rightarrow>
                  (case item props ''node'' of
                     Inl e \<Rightarrow> (Inl e, log Error w2)
                   | Inr node_prop \<Rightarrow>
                       (Inr (py_str vm_id, vm_outputs props vm_id node_prop vm_info),
                        log Info w2))))"

subsection \<open>Vocabulary of the properties\<close>

text \<open>The outcomes of the next \<open>n\<close> requests, as the world \<open>w\<close> will meet them.\<close>

definition outcomes :: "remote \<Rightarrow> world \<Rightarrow> nat \<Rightarrow> (string + response) list" where
  "outcomes srv w n = map srv [calls w ..< calls w + n]"

text \<open>A poll that failed with a time-out or lock message; a poll that read \<open>stopped\<close>.\<close>

definition still_locked :: "string + response \<Rightarrow> bool" where
  "still_locked out = (case out of Inl e \<Rightarrow> lock_error e | Inr r \<Rightarrow> False)"

definition reports_stopped :: "string + response \<Rightarrow> bool" where
  "reports_stopped out =
     (case out of Inl e \<Rightarrow> False | Inr r \<Rightarrow> status_of (data_of r) = ''stopped'')"

definition status_read :: "string \<Rightarrow> int \<Rightarrow> event" where
  "status_read node vm_id = Request GET (lxc_path node vm_id ''/status/current'') None"

definition poll_events :: "string \<Rightarrow> int \<Rightarrow> string + response \<Rightarrow> event list" where
  "poll_events node vm_id out =
     [status_read node vm_id, Log (case out of Inl e \<Rightarrow> Warn | Inr r \<Rightarrow> Info), Sleep 1]"

text \<open>
  What a run added to the trace; the requests among events; the delete calls; the
  waits of the retry loop, which are three seconds or more while a poll waits one.
\<close>

definition new_events :: "world \<Rightarrow> world \<Rightarrow> event list" where
  "new_events w w' = drop (length (trace w)) (trace w')"

fun is_request :: "event \<Rightarrow> bool" where
  "is_request (Request m p b) = True"
| "is_request ev = False"

fun is_delete :: "event \<Rightarrow> bool" where
  "is_delete (Request m p b) = (m = DELETE)"
| "is_delete ev = False"

fun is_backoff :: "event \<Rightarrow> bool" where
  "is_backoff (Sleep s) = (3 \<le> s)"
| "is_backoff ev = False"

definition quiet :: "event list \<Rightarrow> bool" where
  "quiet evs = (filter (\<lambda>ev. is_delete ev \<or> is_backoff ev) evs = [])"

definition grows :: "world \<Rightarrow> world \<Rightarrow> event list \<Rightarrow> bool" where
  "grows w w' evs =
     (trace w' = trace w @ evs \<and> calls w' = calls w + length (filter is_request evs))"

text \<open>Each request of a run with the outcome it met, the first request meeting outcome \<open>n\<close>.\<close>

fun answered :: "remote \<Rightarrow> nat \<Rightarrow> event list \<Rightarrow> (event \<times> (string + response)) list" where
  "answered srv n [] = []"
| "answered srv n (Request m p b # evs) = (Request m p b, srv n) # answered srv (Suc n) evs"
| "answered srv n (Sleep s # evs) = answered srv n evs"
| "answered srv n (Log l # evs) = answered srv n evs"

definition delete_outcomes :: "remote \<Rightarrow> nat \<Rightarrow> event list \<Rightarrow> (string + response) list" where
  "delete_outcomes srv n evs = map snd (filter (\<lambda>(ev, out). is_delete ev) (answered srv n evs))"

definition retryable_failure :: "string + response \<Rightarrow> bool" where
  "retryable_failure out = (case out of Inl e \<Rightarrow> retryable (lower e) | Inr r \<Rightarrow> False)"

definition delete_call :: "string \<Rightarrow> int \<Rightarrow> event" where
  "delete_call node vm_id = Request DELETE (lxc_path node vm_id []) None"

text \<open>
  The delete calls and the waits between them, as the retry policy has them: after the
  delete call of attempt \<open>a\<close>, counted from 0, a wait of \<open>3 * (a + 1)\<close> seconds.
\<close>

definition backoff_schedule :: "string \<Rightarrow> int \<Rightarrow> nat \<Rightarrow> nat \<Rightarrow> event list" where
  "backoff_schedule node vm_id a n =
     concat (map (\<lambda>i. [delete_call node vm_id, Sleep (3 * (i + 1))]) [a ..< a + n - 1])
     @ [delete_call node vm_id]"

text \<open>A run from \<open>w\<close> to \<open>w'\<close> that made no delete call and no such wait.\<close>

definition quietly :: "world \<Rightarrow> world \<Rightarrow> bool" where
  "quietly w w' = (\<exists>evs. grows w w' evs \<and> quiet evs)"

definition retry_view :: "event list \<Rightarrow> event list" where
  "retry_view evs = filter (\<lambda>ev. is_delete ev \<or> is_backoff ev) evs"

text \<open>
  What the retry loop, entered at attempt \<open>a\<close> with \<open>k\<close> iterations left and the next
  request meeting outcome \<open>n\<close>, is to have done when it added \<open>evs\<close> and returned \<open>res\<close>.
\<close>

definition retry_ok ::
  "remote \<Rightarrow> string \<Rightarrow> int \<Rightarrow> nat \<Rightarrow> nat \<Rightarrow> nat \<Rightarrow> event list \<Rightarrow> error + api_result \<Rightarrow> bool" where
  "retry_ok srv node vm_id a k n evs res =
     (let douts = delete_outcomes srv n evs in
      douts \<noteq> [] \<and> length douts \<le> k
      \<and> list_all retryable_failure (butlast douts)
      \<and> (case last douts of
            Inr reply \<Rightarrow> res = Inr (Reply reply)
          | Inl e \<Rightarrow> res = Inl (RequestError e)
                     \<and> (retryable (lower e) \<longrightarrow> a + length douts = max_delete_retries))
      \<and> retry_view evs = backoff_schedule node vm_id a (length douts))"

text \<open>
  The order of \<^verbatim>\<open>delete_lxc\<close> as the specification words it: wait for the unlock,
  read the status, stop a running container and wait up to 60 polls, force a shutdown
  when it has not stopped and wait up to 30 polls, wait for the unlock again, and only
  then the retry loop. The flag says what follows a forced shutdown call that failed:
  the wait all the same, or nothing but the log entry.
\<close>

definition stop_in_order :: "bool \<Rightarrow> remote \<Rightarrow> string \<Rightarrow> int \<Rightarrow> world \<Rightarrow> world" where
  "stop_in_order wait_after_failure srv node vm_id w =
     (let (info, w1) = get_lxc srv node (Atom (AInt vm_id)) w;
          w2 = log Info w1
      in if status_of info \<noteq> ''running'' then w2
         else
           (let (stop, w3) = make_request srv POST (lxc_path node vm_id ''/status/stop'') None (log Info w2);
                w4 = log (case stop of Inl e \<Rightarrow> Error | Inr r \<Rightarrow> Info) w3;
                (stopped, w5) = wait_for_lxc_stop srv node vm_id 60 w4
            in if stopped then w5
               else
                 (let (shutdown, w6) =
                        make_request srv POST (lxc_path node vm_id ''/status/shutdown'') None (log Warn w5)
                  in case shutdown of
                       Inr r \<Rightarrow> snd (wait_for_lxc_stop srv node vm_id 30 w6)
                     | Inl e \<Rightarrow>
                         if wait_after_failure
                         then snd (wait_for_lxc_stop srv node vm_id 30 (log Error w6))
                         else log Error w6)))"

definition before_delete :: "bool \<Rightarrow> remote \<Rightarrow> string \<Rightarrow> int \<Rightarrow> world \<Rightarrow> world" where
  "before_delete wait_after_failure srv node vm_id w =
     snd (wait_for_lxc_unlock srv node vm_id 30
       (stop_in_order wait_after_failure srv node vm_id
          (snd (wait_for_lxc_unlock srv node vm_id 30 (log Info w)))))"

definition delete_in_order ::
  "bool \<Rightarrow> remote \<Rightarrow> string \<Rightarrow> int \<Rightarrow> world \<Rightarrow> (error + api_result) \<times> world" where
  "delete_in_order wait_after_failure srv node vm_id w =
     delete_loop srv node vm_id 0 max_delete_retries (before_delete wait_after_failure srv node vm_id w)"

text \<open>
  The part of a disk configuration after its first colon, when it is a string with a
  colon; the resize request for a slot and a size; the mutable fields of a descriptor.
\<close>

fun size_segment :: "atom \<Rightarrow> string option" where
  "size_segment (AStr s) =
     (if CHR '':'' \<in> set s then Some (tl (dropWhile (\<lambda>c. c \<noteq> CHR '':'') s)) else None)"
| "size_segment a = None"

definition resize_call :: "string \<Rightarrow> int \<Rightarrow> string \<Rightarrow> string \<Rightarrow> event" where
  "resize_call node vm_id slot digits =
     Request PUT (lxc_path node vm_id ''/resize'')
       (Some [(''disk'', Atom (AStr slot)),
              (''size'', Atom (AStr (str_nat (digits_to_nat digits) @ ''G'')))])"

definition resize_calls :: "string \<Rightarrow> int \<Rightarrow> (string \<times> atom) list \<Rightarrow> event list" where
  "resize_calls node vm_id d =
     concat (map (\<lambda>(slot, disk_config).
                    case size_segment disk_config of
                      None \<Rightarrow> []
                    | Some digits \<Rightarrow>
                        if isdigit digits then [resize_call node vm_id slot digits] else []) d)"

definition mutable_fields :: "string list" where
  "mutable_fields =
     [''hostname'', ''cores'', ''memory'', ''swap'', ''disks'', ''networks'', ''features'',
      ''startup'', ''onboot'']"

text \<open>The identifier \<^verbatim>\<open>create\<close> works with: \<^verbatim>\<open>props.get("vm_id") or 200\<close>.\<close>

definition chosen_vm_id :: "props \<Rightarrow> pyval" where
  "chosen_vm_id props =
     (if truthy (get props ''vm_id'') then get props ''vm_id'' else Atom (AInt 200))"

definition starts_on_create :: "props \<Rightarrow> bool" where
  "starts_on_create props = truthy (get_or props ''start_on_create'' (Atom (ABool True)))"

definition chosen_vm :: "props \<Rightarrow> pyval" where
  "chosen_vm props =
     (if truthy (get props ''vm_id'') then get props ''vm_id'' else Atom (AInt 100))"

text \<open>The keys of the create parameters that no optional setting of the source writes.\<close>

definition plain_key :: "string \<Rightarrow> bool" where
  "plain_key k = (k \<notin> set [''ostemplate'', ''password'', ''ssh-public-keys'', ''features'',
                            ''startup'', ''onboot''])"

section \<open>Properties\<close>

subsection \<open>The polling loops\<close>

lemma outcomes_Suc:
  "outcomes srv w (Suc n) =
     srv (calls w) # outcomes srv (w\<lparr>calls := Suc (calls w), trace := t\<rparr>) n"
  by (simp add: outcomes_def upt_conv_Cons del: upt_Suc)

lemma length_outcomes: "length (outcomes srv w n) = n"
  by (simp add: outcomes_def)

lemma takeWhile_all: "(length (takeWhile P xs) < length xs) = (\<not> list_all P xs)"
  by (induction xs) auto

lemma takeWhile_ex: "(length (takeWhile (\<lambda>x. \<not> P x) xs) < length xs) = list_ex P xs"
  by (induction xs) auto

lemma unlock_run:
  "wait_for_lxc_unlock srv node vm_id n w =
     (let k = length (takeWhile still_locked (outcomes srv w n)) in
      (k < n,
       w\<lparr>calls := calls w + min n (Suc k),
         trace := trace w @ concat (replicate k [status_read node vm_id, Log Info, Sleep 1])
                  @ (if k < n
                     then [status_read node vm_id,
                           Log (case srv (calls w + k) of Inl e \<Rightarrow> Warn | Inr r \<Rightarrow> Info)]
                     else [Log Warn])\<rparr>))"
proof (induction n arbitrary: w)
  case 0
  show ?case by (simp add: outcomes_def log_def)
next
  case (Suc n)
  show ?case
    apply (simp only: outcomes_Suc[where t = "trace w @ [status_read node vm_id]"])
    apply (cases "srv (calls w)")
     apply (simp_all add: make_request_def Suc still_locked_def log_def sleep_def
              status_read_def Let_def outcomes_def)
    done
qed

lemma stop_run:
  "wait_for_lxc_stop srv node vm_id n w =
     (let outs = outcomes srv w n;
          k = length (takeWhile (\<lambda>out. \<not> reports_stopped out) outs) in
      (k < n,
       w\<lparr>calls := calls w + min n (Suc k),
         trace := trace w @ concat (map (poll_events node vm_id) (take k outs))
                  @ (if k < n then [status_read node vm_id, Log Info, Log Info]
                     else [Log Warn])\<rparr>))"
proof (induction n arbitrary: w)
  case 0
  show ?case by (simp add: outcomes_def log_def)
next
  case (Suc n)
  show ?case
    apply (simp only: outcomes_Suc[where t = "trace w @ [status_read node vm_id]"])
    apply (cases "srv (calls w)")
     apply (simp_all add: make_request_def Suc reports_stopped_def log_def sleep_def
              status_read_def Let_def outcomes_def poll_events_def)
    done
qed

lemma classified:
  "lock_error ''VM is LOCKED''" "\<not> lock_error ''500 error''"
  by (simp_all add: lock_error_def lower_def lower_char_def)

text \<open>
  C3. For every remote side, \<^verbatim>\<open>_wait_for_lxc_unlock\<close> with \<open>n\<close> attempts polls until
  the first outcome that is not a time-out or lock failure and then returns true at
  once, be that outcome a successful read (logged as information) or another failure
  (logged as a warning); each poll before it is followed by a log entry and a sleep of
  one second. It returns false exactly when all \<open>n\<close> polls failed with a time-out or
  lock message, after \<open>n\<close> polls.
\<close>

theorem wait_for_lxc_unlock_outcomes:
  "(let r = wait_for_lxc_unlock srv node vm_id n w;
        outs = outcomes srv w n;
        k = length (takeWhile still_locked outs)
    in fst r = (\<not> list_all still_locked outs)
       \<and> calls (snd r) = calls w + min n (Suc k)
       \<and> trace (snd r) =
           trace w @ concat (replicate k [status_read node vm_id, Log Info, Sleep 1])
           @ (if list_all still_locked outs then [Log Warn]
              else [status_read node vm_id,
                    Log (case srv (calls w + k) of Inl e \<Rightarrow> Warn | Inr r \<Rightarrow> Info)]))"
  using takeWhile_all[of still_locked "outcomes srv w n"]
  by (simp add: unlock_run Let_def length_outcomes)

theorem wait_for_lxc_unlock_witness:
  "fst (wait_for_lxc_unlock (\<lambda>i. if i < 2 then Inl ''VM is LOCKED'' else Inl ''500 error'')
          ''pve'' 215 5 \<lparr>calls = 0, trace = []\<rparr>) = True
   \<and> calls (snd (wait_for_lxc_unlock
          (\<lambda>i. if i < 2 then Inl ''VM is LOCKED'' else Inl ''500 error'')
          ''pve'' 215 5 \<lparr>calls = 0, trace = []\<rparr>)) = 3
   \<and> trace (snd (wait_for_lxc_unlock
          (\<lambda>i. if i < 2 then Inl ''VM is LOCKED'' else Inl ''500 error'')
          ''pve'' 215 5 \<lparr>calls = 0, trace = []\<rparr>)) =
       [status_read ''pve'' 215, Log Info, Sleep 1,
        status_read ''pve'' 215, Log Info, Sleep 1,
        status_read ''pve'' 215, Log Warn]"
  using wait_for_lxc_unlock_outcomes[of
      "\<lambda>i. if i < 2 then Inl ''VM is LOCKED'' else Inl ''500 error''"
      "''pve''" 215 5 "\<lparr>calls = 0, trace = []\<rparr>"]
  by (simp add: Let_def outcomes_def still_locked_def classified upt_rec)

text \<open>
  C4. For every remote side, \<^verbatim>\<open>_wait_for_lxc_stop\<close> with \<open>n\<close> attempts returns true
  if and only if one of the next \<open>n\<close> status reads reports \<open>stopped\<close>, and it returns
  at the first such read. Every read before it, failed (logged as a warning) or
  reporting another status, is followed by a sleep of one second and the next read.
  When none of the \<open>n\<close> reads reports \<open>stopped\<close> it returns false after exactly \<open>n\<close>
  reads.
\<close>

theorem wait_for_lxc_stop_outcomes:
  "(let r = wait_for_lxc_stop srv node vm_id n w;
        outs = outcomes srv w n;
        k = length (takeWhile (\<lambda>out. \<not> reports_stopped out) outs)
    in fst r = list_ex reports_stopped outs
       \<and> calls (snd r) = calls w + min n (Suc k)
       \<and> trace (snd r) =
           trace w @ concat (map (poll_events node vm_id) (take k outs))
           @ (if list_ex reports_stopped outs
              then [status_read node vm_id, Log Info, Log Info]
              else [Log Warn]))"
  using takeWhile_ex[of reports_stopped "outcomes srv w n"]
  by (simp add: stop_run Let_def length_outcomes)

theorem wait_for_lxc_stop_witness:
  "fst (wait_for_lxc_stop
          (\<lambda>i. if i = 0 then Inl ''500 error''
                else if i = 1 then Inr (Response (Some [(''status'', ''running'')]))
                else Inr (Response (Some [(''status'', ''stopped'')])))
          ''pve'' 215 5 \<lparr>calls = 0, trace = []\<rparr>) = True
   \<and> calls (snd (wait_for_lxc_stop
          (\<lambda>i. if i = 0 then Inl ''500 error''
                else if i = 1 then Inr (Response (Some [(''status'', ''running'')]))
                else Inr (Response (Some [(''status'', ''stopped'')])))
          ''pve'' 215 5 \<lparr>calls = 0, trace = []\<rparr>)) = 3
   \<and> trace (snd (wait_for_lxc_stop
          (\<lambda>i. if i = 0 then Inl ''500 error''
                else if i = 1 then Inr (Response (Some [(''status'', ''running'')]))
                else Inr (Response (Some [(''status'', ''stopped'')])))
          ''pve'' 215 5 \<lparr>calls = 0, trace = []\<rparr>)) =
       [status_read ''pve'' 215, Log Warn, Sleep 1,
        status_read ''pve'' 215, Log Info, Sleep 1,
        status_read ''pve'' 215, Log Info, Log Info]"
  using wait_for_lxc_stop_outcomes[of
      "\<lambda>i. if i = 0 then Inl ''500 error''
            else if i = 1 then Inr (Response (Some [(''status'', ''running'')]))
            else Inr (Response (Some [(''status'', ''stopped'')]))"
      "''pve''" 215 5 "\<lparr>calls = 0, trace = []\<rparr>"]
  by (simp add: Let_def outcomes_def reports_stopped_def status_of_def data_of_def
        poll_events_def upt_rec)

subsection \<open>Deleting a container\<close>

lemma grows_refl: "grows w w []"
  by (simp add: grows_def)

lemma grows_trans: "grows w w1 e1 \<Longrightarrow> grows w1 w2 e2 \<Longrightarrow> grows w w2 (e1 @ e2)"
  by (simp add: grows_def)

lemma grows_log: "grows w (log l w) [Log l]"
  by (simp add: grows_def log_def)

lemma grows_sleep: "grows w (sleep s w) [Sleep s]"
  by (simp add: grows_def sleep_def)

lemma grows_request:
  "make_request srv m p b w = (out, w1) \<Longrightarrow> out = srv (calls w) \<and> grows w w1 [Request m p b]"
  by (auto simp add: grows_def make_request_def)

lemma grows_new_events: "grows w w' evs \<Longrightarrow> new_events w w' = evs"
  by (simp add: grows_def new_events_def)

lemma quiet_append: "quiet (xs @ ys) = (quiet xs \<and> quiet ys)"
  by (simp add: quiet_def)

lemma quiet_simps:
  "quiet []" "quiet (Log l # evs) = quiet evs" "quiet (Sleep s # evs) = (s < 3 \<and> quiet evs)"
  "quiet (Request m p b # evs) = (m \<noteq> DELETE \<and> quiet evs)"
  by (auto simp add: quiet_def)

lemma quietly_refl: "quietly w w"
  unfolding quietly_def by (rule exI[of _ "[]"]) (simp add: grows_refl quiet_simps)

lemma quietly_trans: "quietly w w1 \<Longrightarrow> quietly w1 w2 \<Longrightarrow> quietly w w2"
  unfolding quietly_def using grows_trans quiet_append by blast

lemma quietly_log: "quietly w (log l w)"
  unfolding quietly_def using grows_log[of w l] by (auto simp add: quiet_simps)

lemma quietly_sleep1: "quietly w (sleep 1 w)"
  unfolding quietly_def using grows_sleep[of w 1] by (auto simp add: quiet_simps)

lemma quietly_request: "m \<noteq> DELETE \<Longrightarrow> quietly w (snd (make_request srv m p b w))"
  unfolding quietly_def using grows_request[of srv m p b w]
  by (cases "make_request srv m p b w") (auto simp add: quiet_simps)

lemmas quietly_step = quietly_trans[OF _ quietly_log] quietly_trans[OF _ quietly_sleep1]

lemma stop_quietly: "quietly w (snd (wait_for_lxc_stop srv node vm_id n w))"
proof (induction n arbitrary: w)
  case 0
  show ?case by (simp add: quietly_log)
next
  case (Suc n)
  let ?rq = "make_request srv GET (lxc_path node vm_id ''/status/current'') None w"
  have q1: "quietly w (snd ?rq)" by (rule quietly_request) simp
  show ?case
  proof (cases "fst ?rq")
    case (Inl e)
    have "quietly w (sleep 1 (log Warn (snd ?rq)))"
      by (intro quietly_step q1)
    from quietly_trans[OF this Suc] Inl show ?thesis
      by (cases ?rq) simp
  next
    case (Inr r)
    have a: "quietly w (sleep 1 (log Info (snd ?rq)))" and b: "quietly w (log Info (log Info (snd ?rq)))"
      by (intro quietly_step q1)+
    from quietly_trans[OF a Suc] b Inr show ?thesis
      by (cases ?rq) (simp add: Let_def)
  qed
qed

lemma unlock_quietly: "quietly w (snd (wait_for_lxc_unlock srv node vm_id n w))"
proof (induction n arbitrary: w)
  case 0
  show ?case by (simp add: quietly_log)
next
  case (Suc n)
  let ?rq = "make_request srv GET (lxc_path node vm_id ''/status/current'') None w"
  have q1: "quietly w (snd ?rq)" by (rule quietly_request) simp
  show ?case
  proof (cases "fst ?rq")
    case (Inl e)
    have a: "quietly w (sleep 1 (log Info (snd ?rq)))" and b: "quietly w (log Warn (snd ?rq))"
      by (intro quietly_step q1)+
    from quietly_trans[OF a Suc] b Inl show ?thesis
      by (cases ?rq) simp
  next
    case (Inr r)
    have "quietly w (log Info (snd ?rq))"
      by (intro quietly_step q1)
    with Inr show ?thesis
      by (cases ?rq) simp
  qed
qed

lemma get_lxc_quietly: "quietly w (snd (get_lxc srv node v w))"
proof (cases "py_int v")
  case (Inl e)
  then show ?thesis by (simp add: get_lxc_def quietly_log)
next
  case (Inr n)
  let ?rq = "make_request srv GET (lxc_path node n ''/status/current'') None w"
  have q1: "quietly w (snd ?rq)" by (rule quietly_request) simp
  have "quietly w (log Warn (snd ?rq))" by (intro quietly_step q1)
  with q1 Inr show ?thesis
    by (cases ?rq) (auto simp add: get_lxc_def split: sum.splits)
qed

lemma check_quietly: "quietly w (check_before_retry srv node vm_id w)"
proof -
  let ?g = "get_lxc srv node (Atom (AInt vm_id)) w"
  let ?w2 = "log Info (snd ?g)"
  let ?rq = "make_request srv POST (lxc_path node vm_id ''/status/shutdown'') None (log Warn ?w2)"
  have q2: "quietly w ?w2" by (intro quietly_step get_lxc_quietly)
  have q3: "quietly w (log Warn ?w2)" by (intro quietly_step q2)
  have q4: "quietly w (snd ?rq)"
    by (rule quietly_trans[OF q3]) (rule quietly_request, simp)
  have q5: "quietly w (snd (wait_for_lxc_stop srv node vm_id 15 (snd ?rq)))"
    by (rule quietly_trans[OF q4 stop_quietly])
  show ?thesis
    using q2 q4 q5
    by (cases ?g; cases ?rq) (auto simp add: check_before_retry_def Let_def split: sum.splits)
qed

lemma stop_before_delete_quietly: "quietly w (stop_before_delete srv node vm_id w)"
proof -
  let ?g = "get_lxc srv node (Atom (AInt vm_id)) w"
  let ?w2 = "log Info (snd ?g)"
  let ?w3 = "log Info ?w2"
  let ?rq = "make_request srv POST (lxc_path node vm_id ''/status/stop'') None ?w3"
  let ?w4 = "case ?rq of (Inr r, w') \<Rightarrow> log Info w' | (Inl e, w') \<Rightarrow> log Error w'"
  let ?s = "wait_for_lxc_stop srv node vm_id 60 ?w4"
  let ?w6 = "log Warn (snd ?s)"
  let ?rq2 = "make_request srv POST (lxc_path node vm_id ''/status/shutdown'') None ?w6"
  have q2: "quietly w ?w2" by (intro quietly_step get_lxc_quietly)
  have q3: "quietly w ?w3" by (intro quietly_step q2)
  have qr: "quietly w (snd ?rq)"
    by (rule quietly_trans[OF q3]) (rule quietly_request, simp)
  have q4: "quietly w ?w4"
    using quietly_trans[OF qr quietly_log[of _ Info]] quietly_trans[OF qr quietly_log[of _ Error]]
    by (cases ?rq) (auto split: sum.splits)
  have q5: "quietly w (snd ?s)" by (rule quietly_trans[OF q4 stop_quietly])
  have q6: "quietly w ?w6" by (intro quietly_step q5)
  have q7: "quietly w (snd ?rq2)"
    by (rule quietly_trans[OF q6]) (rule quietly_request, simp)
  have q8: "quietly w (log Error (snd ?rq2))" by (intro quietly_step q7)
  have q9: "quietly w (snd (wait_for_lxc_stop srv node vm_id 30 (snd ?rq2)))"
    by (rule quietly_trans[OF q7 stop_quietly])
  show ?thesis
    using q2 q5 q8 q9
    by (cases ?g; cases ?s; cases ?rq2) (auto simp add: stop_before_delete_def Let_def split: sum.splits)
qed

lemma answered_append:
  "answered srv n (xs @ ys) = answered srv n xs @ answered srv (n + length (filter is_request xs)) ys"
  by (induction srv n xs rule: answered.induct) simp_all

lemma delete_outcomes_append:
  "delete_outcomes srv n (xs @ ys) =
     delete_outcomes srv n xs @ delete_outcomes srv (n + length (filter is_request xs)) ys"
  by (simp add: delete_outcomes_def answered_append)

lemma delete_outcomes_quiet: "quiet evs \<Longrightarrow> delete_outcomes srv n evs = []"
  by (induction srv n evs rule: answered.induct) (simp_all add: delete_outcomes_def quiet_simps)

lemma delete_outcomes_call:
  "delete_outcomes srv n (delete_call node vm_id # evs) = srv n # delete_outcomes srv (Suc n) evs"
  by (simp add: delete_outcomes_def delete_call_def)

lemma delete_outcomes_skip:
  "delete_outcomes srv n (Log l # evs) = delete_outcomes srv n evs"
  "delete_outcomes srv n (Sleep s # evs) = delete_outcomes srv n evs"
  "delete_outcomes srv n [] = []"
  by (simp_all add: delete_outcomes_def)

lemma retry_view_simps:
  "retry_view [] = []"
  "retry_view (xs @ ys) = retry_view xs @ retry_view ys"
  "retry_view (Log l # evs) = retry_view evs"
  "retry_view (delete_call node vm_id # evs) = delete_call node vm_id # retry_view evs"
  "quiet evs \<Longrightarrow> retry_view evs = []"
  by (simp_all add: retry_view_def delete_call_def quiet_def)

lemma backoff_schedule_1: "backoff_schedule node vm_id a (Suc 0) = [delete_call node vm_id]"
  by (simp add: backoff_schedule_def)

lemma backoff_schedule_Suc:
  "0 < n \<Longrightarrow> backoff_schedule node vm_id a (Suc n) =
     [delete_call node vm_id, Sleep (3 * (a + 1))] @ backoff_schedule node vm_id (Suc a) n"
  by (simp add: backoff_schedule_def upt_conv_Cons del: upt_Suc)

lemma delete_loop_run:
  "a + k = max_delete_retries \<Longrightarrow> 0 < k \<Longrightarrow>
   \<exists>evs. grows w (snd (delete_loop srv node vm_id a k w)) evs
         \<and> retry_ok srv node vm_id a k (calls w) evs (fst (delete_loop srv node vm_id a k w))"
proof (induction k arbitrary: a w)
  case 0
  then show ?case by simp
next
  case (Suc k)
  let ?rq = "make_request srv DELETE (lxc_path node vm_id []) None w"
  obtain out w1 where rq: "?rq = (out, w1)" by (cases ?rq)
  from grows_request[OF rq] have out: "out = srv (calls w)"
    and g1: "grows w w1 [delete_call node vm_id]"
    by (simp_all add: delete_call_def)
  show ?case
  proof (cases out)
    case (Inr r)
    from grows_trans[OF g1 grows_log[of w1 Info]]
    have "grows w (log Info w1) ([delete_call node vm_id] @ [Log Info])" .
    moreover have "retry_ok srv node vm_id a (Suc k) (calls w) ([delete_call node vm_id] @ [Log Info]) (Inr (Reply r))"
      using Inr out
      by (simp add: retry_ok_def delete_outcomes_call delete_outcomes_skip retry_view_simps backoff_schedule_1)
    ultimately show ?thesis using rq Inr by (auto intro!: exI)
  next
    case (Inl e)
    show ?thesis
    proof (cases "retryable (lower e) \<and> a < max_delete_retries - 1")
      case False
      from grows_trans[OF g1 grows_log[of w1 Error]]
      have "grows w (log Error w1) ([delete_call node vm_id] @ [Log Error])" .
      moreover have "retry_ok srv node vm_id a (Suc k) (calls w) ([delete_call node vm_id] @ [Log Error]) (Inl (RequestError e))"
        using Inl out False Suc.prems
        by (auto simp add: retry_ok_def delete_outcomes_call delete_outcomes_skip retry_view_simps backoff_schedule_1)
      ultimately show ?thesis using rq Inl False by (auto simp add: Let_def intro!: exI)
    next
      case True
      then have k: "0 < k" and ak: "Suc a + k = max_delete_retries"
        using Suc.prems by auto
      define w2 where "w2 = log Warn w1"
      define w3 where "w3 = check_before_retry srv node vm_id w2"
      define w4 where "w4 = sleep ((a + 1) * 3) w3"
      define rec where "rec = delete_loop srv node vm_id (Suc a) k w4"
      obtain cs where c1: "grows w2 w3 cs" and c2: "quiet cs"
        using check_quietly[of w2 srv node vm_id] by (auto simp add: quietly_def w3_def)
      define pre where "pre = ([delete_call node vm_id] @ [Log Warn]) @ cs @ [Sleep ((a + 1) * 3)]"
      have g2: "grows w w2 ([delete_call node vm_id] @ [Log Warn])"
        unfolding w2_def by (rule grows_trans[OF g1 grows_log])
      have g4: "grows w w4 pre"
        unfolding pre_def w4_def
        by (rule grows_trans[OF g2 grows_trans[OF c1 grows_sleep]])
      obtain evs where r1: "grows w4 (snd rec) evs"
        and r2: "retry_ok srv node vm_id (Suc a) k (calls w4) evs (fst rec)"
        using Suc.IH[OF ak k, of w4] unfolding rec_def by blast
      have calls4: "calls w4 = Suc (calls w) + length (filter is_request cs)"
        using g4 by (simp add: grows_def delete_call_def pre_def)
      have dpre: "delete_outcomes srv (calls w) (pre @ evs) = out # delete_outcomes srv (calls w4) evs"
        using c2 out unfolding calls4 pre_def
        by (simp add: delete_outcomes_call delete_outcomes_skip delete_outcomes_append
              delete_outcomes_quiet)
      have vpre: "retry_view (pre @ evs) = [delete_call node vm_id, Sleep (3 * (a + 1))] @ retry_view evs"
        using c2 unfolding pre_def
        by (simp add: retry_view_simps) (simp add: retry_view_def mult.commute)
      have ok: "retry_ok srv node vm_id a (Suc k) (calls w) (pre @ evs) (fst rec)"
        using r2 True Inl
        unfolding retry_ok_def dpre vpre Let_def
        by (auto simp add: retryable_failure_def backoff_schedule_Suc split: sum.splits)
      have gr: "grows w (snd rec) (pre @ evs)"
        by (rule grows_trans[OF g4 r1])
      have "delete_loop srv node vm_id a (Suc k) w = rec"
        using rq Inl True by (simp add: Let_def rec_def w4_def w3_def w2_def)
      with ok gr show ?thesis by auto
    qed
  qed
qed

lemma before_delete_quietly:
  "quietly w (snd (wait_for_lxc_unlock srv node vm_id 30
      (stop_before_delete srv node vm_id
         (snd (wait_for_lxc_unlock srv node vm_id 30 (log Info w))))))"
  by (intro quietly_trans[OF quietly_trans[OF quietly_trans[OF quietly_log unlock_quietly]
        stop_before_delete_quietly] unlock_quietly])

text \<open>
  C1. For every remote side, \<^verbatim>\<open>delete_lxc\<close> makes at least one and at most 10
  delete calls. Every delete call but the last failed with a message that, lowercased,
  contains \<^verbatim>\<open>container is running\<close>, \<^verbatim>\<open>timeout\<close> or \<^verbatim>\<open>lock\<close>. When
  the last delete call succeeded its reply is returned; when it failed its error is
  raised, and then either the message contains none of the three, on whatever attempt
  (also the first), or it was the tenth call. The delete calls and the waits of the
  loop alternate: after the delete call of attempt \<open>a\<close>, counted from 1, and before the
  next one, a wait of \<open>3 * a\<close> seconds, so 3, 6, ..., 27.
\<close>

theorem delete_lxc_retry_policy:
  "(let r = delete_lxc srv node vm_id w;
        evs = new_events w (snd r);
        douts = delete_outcomes srv (calls w) evs
    in douts \<noteq> [] \<and> length douts \<le> 10
       \<and> list_all retryable_failure (butlast douts)
       \<and> (case last douts of
             Inr reply \<Rightarrow> fst r = Inr (Reply reply)
           | Inl e \<Rightarrow> fst r = Inl (RequestError e)
                      \<and> (retryable (lower e) \<longrightarrow> length douts = 10))
       \<and> retry_view evs = backoff_schedule node vm_id 0 (length douts))"
proof -
  define w4 where "w4 = snd (wait_for_lxc_unlock srv node vm_id 30
      (stop_before_delete srv node vm_id
         (snd (wait_for_lxc_unlock srv node vm_id 30 (log Info w)))))"
  define r where "r = delete_loop srv node vm_id 0 max_delete_retries w4"
  have r: "delete_lxc srv node vm_id w = r"
    by (simp add: delete_lxc_def Let_def r_def w4_def)
  obtain pre where p1: "grows w w4 pre" and p2: "quiet pre"
    using before_delete_quietly[of w srv node vm_id] by (auto simp add: quietly_def w4_def)
  obtain evs where e1: "grows w4 (snd r) evs"
    and e2: "retry_ok srv node vm_id 0 max_delete_retries (calls w4) evs (fst r)"
    using delete_loop_run[of 0 max_delete_retries w4 srv node vm_id]
    unfolding r_def by (auto simp add: max_delete_retries_def)
  have ne: "new_events w (snd r) = pre @ evs"
    by (rule grows_new_events[OF grows_trans[OF p1 e1]])
  have c4: "calls w4 = calls w + length (filter is_request pre)"
    using p1 by (simp add: grows_def)
  have d: "delete_outcomes srv (calls w) (pre @ evs) = delete_outcomes srv (calls w4) evs"
    using p2 by (simp add: delete_outcomes_append delete_outcomes_quiet c4)
  have v: "retry_view (pre @ evs) = retry_view evs"
    using p2 by (simp add: retry_view_simps)
  show ?thesis
    using e2 unfolding r ne Let_def d v retry_ok_def
    by (auto simp add: max_delete_retries_def split: sum.splits)
qed

lemma exhausted_run:
  "fst (delete_lxc (\<lambda>i. if 3 \<le> i \<and> odd i then Inl ''lock''
                          else Inr (Response (Some [(''status'', ''stopped'')])))
          ''pve'' 215 \<lparr>calls = 0, trace = []\<rparr>) = Inl (RequestError ''lock'')"
  "length (delete_outcomes
       (\<lambda>i. if 3 \<le> i \<and> odd i then Inl ''lock''
             else Inr (Response (Some [(''status'', ''stopped'')]))) 0
       (new_events \<lparr>calls = 0, trace = []\<rparr>
          (snd (delete_lxc (\<lambda>i. if 3 \<le> i \<and> odd i then Inl ''lock''
                                 else Inr (Response (Some [(''status'', ''stopped'')])))
                 ''pve'' 215 \<lparr>calls = 0, trace = []\<rparr>)))) = 10"
  "retryable (lower ''lock'')"
  by code_simp+

theorem delete_lxc_retry_policy_witness:
  "retryable (lower ''lock'')
   \<and> fst (delete_lxc (\<lambda>i. if 3 \<le> i \<and> odd i then Inl ''lock''
                            else Inr (Response (Some [(''status'', ''stopped'')])))
            ''pve'' 215 \<lparr>calls = 0, trace = []\<rparr>) = Inl (RequestError ''lock'')
   \<and> retry_view (new_events \<lparr>calls = 0, trace = []\<rparr>
          (snd (delete_lxc (\<lambda>i. if 3 \<le> i \<and> odd i then Inl ''lock''
                                 else Inr (Response (Some [(''status'', ''stopped'')])))
                 ''pve'' 215 \<lparr>calls = 0, trace = []\<rparr>))) = backoff_schedule ''pve'' 215 0 10"
  using delete_lxc_retry_policy[of
      "\<lambda>i. if 3 \<le> i \<and> odd i then Inl ''lock''
            else Inr (Response (Some [(''status'', ''stopped'')]))"
      "''pve''" 215 "\<lparr>calls = 0, trace = []\<rparr>"] exhausted_run
  by (simp add: Let_def)

lemma stop_in_order_code: "stop_in_order False srv node vm_id w = stop_before_delete srv node vm_id w"
  by (simp add: stop_in_order_def stop_before_delete_def Let_def split: prod.splits sum.splits)

text \<open>
  C7, as the code has it. \<^verbatim>\<open>delete_lxc\<close> runs in the order of the specification:
  the wait for the unlock with 30 attempts, the status read, for a running container
  the stop call (a failure is logged) and the wait for the stop with 60 attempts, then,
  when it has not stopped, the forced shutdown call, followed by the wait with 30
  attempts when that call succeeded and by a log entry alone when it failed; the wait
  for the unlock again; and only then the retry loop. Nothing before the loop makes a
  delete call, and for every remote side the loop is reached and makes one.
\<close>

theorem delete_lxc_order:
  "delete_lxc srv node vm_id w = delete_in_order False srv node vm_id w
   \<and> quietly w (before_delete False srv node vm_id w)
   \<and> delete_outcomes srv (calls (before_delete False srv node vm_id w))
        (new_events (before_delete False srv node vm_id w) (snd (delete_lxc srv node vm_id w))) \<noteq> []"
proof -
  define w4 where "w4 = before_delete False srv node vm_id w"
  have eq: "delete_lxc srv node vm_id w = delete_loop srv node vm_id 0 max_delete_retries w4"
    by (simp add: delete_lxc_def delete_in_order_def before_delete_def stop_in_order_code Let_def w4_def)
  have q: "quietly w w4"
    unfolding w4_def before_delete_def stop_in_order_code by (rule before_delete_quietly)
  obtain evs where e1: "grows w4 (snd (delete_loop srv node vm_id 0 max_delete_retries w4)) evs"
    and e2: "retry_ok srv node vm_id 0 max_delete_retries (calls w4) evs
               (fst (delete_loop srv node vm_id 0 max_delete_retries w4))"
    using delete_loop_run[of 0 max_delete_retries w4 srv node vm_id]
    by (auto simp add: max_delete_retries_def)
  have "delete_outcomes srv (calls w4) (new_events w4 (snd (delete_lxc srv node vm_id w))) \<noteq> []"
    using e2 unfolding eq grows_new_events[OF e1] retry_ok_def Let_def by simp
  with q show ?thesis
    unfolding w4_def[symmetric] by (simp add: eq delete_in_order_def w4_def)
qed

lemma order_runs:
  "calls (snd (delete_lxc
      (\<lambda>i. if i = 63 then Inl ''500 error''
            else Inr (Response (Some [(''status'', if i < 63 then ''running'' else ''stopped'')])))
      ''pve'' 215 \<lparr>calls = 0, trace = []\<rparr>)) = 66"
  "calls (snd (delete_in_order True
      (\<lambda>i. if i = 63 then Inl ''500 error''
            else Inr (Response (Some [(''status'', if i < 63 then ''running'' else ''stopped'')])))
      ''pve'' 215 \<lparr>calls = 0, trace = []\<rparr>)) = 67"
  by code_simp+

text \<open>
  C7 as it is worded has the wait for the stop follow the forced shutdown call
  whatever the call's outcome. On a container that stays running through the stop
  call and its 60 polls (requests 1 to 62) and whose shutdown call (request 63) fails,
  the code goes on with the unlock poll and the delete call, 66 requests in all; the
  worded order makes one more status read, that of the wait.
\<close>

theorem delete_lxc_order_counterexample:
  "calls (snd (delete_lxc
      (\<lambda>i. if i = 63 then Inl ''500 error''
            else Inr (Response (Some [(''status'', if i < 63 then ''running'' else ''stopped'')])))
      ''pve'' 215 \<lparr>calls = 0, trace = []\<rparr>))
   \<noteq> calls (snd (delete_in_order True
      (\<lambda>i. if i = 63 then Inl ''500 error''
            else Inr (Response (Some [(''status'', if i < 63 then ''running'' else ''stopped'')])))
      ''pve'' 215 \<lparr>calls = 0, trace = []\<rparr>))"
  by (simp add: order_runs)

lemma stopped_run:
  "fst (delete_lxc (\<lambda>i. Inr (Response (Some [(''status'', ''stopped'')])))
          ''pve'' 215 \<lparr>calls = 0, trace = []\<rparr>)
   = Inr (Reply (Response (Some [(''status'', ''stopped'')])))"
  by code_simp

theorem delete_lxc_order_witness:
  "delete_in_order False (\<lambda>i. Inr (Response (Some [(''status'', ''stopped'')])))
      ''pve'' 215 \<lparr>calls = 0, trace = []\<rparr>
   = delete_lxc (\<lambda>i. Inr (Response (Some [(''status'', ''stopped'')])))
      ''pve'' 215 \<lparr>calls = 0, trace = []\<rparr>
   \<and> fst (delete_in_order False (\<lambda>i. Inr (Response (Some [(''status'', ''stopped'')])))
      ''pve'' 215 \<lparr>calls = 0, trace = []\<rparr>)
     = Inr (Reply (Response (Some [(''status'', ''stopped'')])))"
  using delete_lxc_order[of "\<lambda>i. Inr (Response (Some [(''status'', ''stopped'')]))"
      "''pve''" 215 "\<lparr>calls = 0, trace = []\<rparr>"] stopped_run
  by simp

subsection \<open>Resizing a disk\<close>

lemma resize_run:
  "grows w (snd (resize_lxc_disk srv node vm_id slot disk_config w))
     (case size_segment disk_config of
        None \<Rightarrow> (case disk_config of AStr s \<Rightarrow> if s = [] then [] else [Log Warn] | _ \<Rightarrow> [])
      | Some digits \<Rightarrow>
          if isdigit digits
          then [Log Info, resize_call node vm_id slot digits,
                Log (case srv (calls w) of Inl e \<Rightarrow> Error | Inr r \<Rightarrow> Info)]
          else [Log Warn])"
  by (cases disk_config; cases "srv (calls (log Info w))")
     (auto simp add: resize_lxc_disk_def grows_def log_def make_request_def resize_call_def
        resize_params_def split_colon_def Let_def)

lemma resize_result:
  "fst (resize_lxc_disk srv node vm_id slot disk_config w) =
     (case size_segment disk_config of
        None \<Rightarrow> Inr (Response None)
      | Some digits \<Rightarrow>
          if isdigit digits
          then (case srv (calls w) of Inl e \<Rightarrow> Inl (RequestError e) | Inr r \<Rightarrow> Inr r)
          else Inr (Response None))"
  by (cases disk_config; cases "srv (calls (log Info w))")
     (auto simp add: resize_lxc_disk_def log_def make_request_def split_colon_def Let_def)

lemma size_segment_split:
  "CHR '':'' \<notin> set storage \<Longrightarrow> size_segment (AStr (storage @ CHR '':'' # digits)) = Some digits"
  by (induction storage) auto

lemma digit_cases:
  "is_digit c \<Longrightarrow> \<exists>d. d < 10 \<and> digit_val c = Some d \<and> digit_char d = c"
  by (auto simp add: is_digit_def digit_val_def digit_char_def split: if_splits)

lemma digits_to_nat_snoc:
  "digits_to_nat (s @ [c]) =
     10 * digits_to_nat s + (case digit_val c of Some d \<Rightarrow> d | None \<Rightarrow> 0)"
  by (simp add: digits_to_nat_def)

lemma str_nat_zero: "str_nat 0 = ''0''"
  by (simp add: str_nat.simps digit_char_def)

lemma digits_roundtrip:
  "isdigit s \<Longrightarrow> hd s \<noteq> CHR ''0'' \<or> s = ''0'' \<Longrightarrow> str_nat (digits_to_nat s) = s"
proof (induction s rule: rev_induct)
  case Nil
  then show ?case by (simp add: isdigit_def)
next
  case (snoc c s)
  from snoc.prems(1) have dc: "is_digit c" and ds: "list_all is_digit s"
    by (simp_all add: isdigit_def)
  obtain d where d: "d < 10" "digit_val c = Some d" "digit_char d = c"
    using digit_cases[OF dc] by blast
  show ?case
  proof (cases "s = []")
    case True
    with d show ?thesis
      by (simp add: digits_to_nat_snoc digits_to_nat_def str_nat.simps)
  next
    case False
    then have h: "hd s \<noteq> CHR ''0''" using snoc.prems(2) by auto
    have isd: "isdigit s" using False ds by (simp add: isdigit_def)
    have ih: "str_nat (digits_to_nat s) = s"
      using snoc.IH[OF isd] h by simp
    have "digits_to_nat s \<noteq> 0"
    proof
      assume "digits_to_nat s = 0"
      with ih have "s = ''0''" by (simp add: str_nat_zero)
      with h show False by simp
    qed
    then have "\<not> 10 * digits_to_nat s + d < 10" by simp
    then have "str_nat (10 * digits_to_nat s + d) =
        str_nat ((10 * digits_to_nat s + d) div 10) @ [digit_char ((10 * digits_to_nat s + d) mod 10)]"
      by (subst str_nat.simps) simp
    with d ih show ?thesis
      by (simp add: digits_to_nat_snoc)
  qed
qed

text \<open>
  C6, as the code has it. \<^verbatim>\<open>_resize_lxc_disk\<close> makes no request and returns
  \<^verbatim>\<open>{}\<close> when the configuration is not a string, has no colon, or has after its
  first colon anything but a non-empty string of decimal digits. Otherwise, for
  \<^verbatim>\<open>storage:N\<close> with \<open>N\<close> a digit string (zero and leading zeros included), it
  makes exactly one request, the resize call for the slot whose size is the decimal
  value of \<open>N\<close> followed by \<^verbatim>\<open>G\<close>; that is \<open>N\<close> itself followed by
  \<^verbatim>\<open>G\<close> when \<open>N\<close> has no leading zero.
\<close>

theorem resize_lxc_disk_validation:
  "(let r = resize_lxc_disk srv node vm_id slot disk_config w;
        requests = filter is_request (new_events w (snd r))
    in case size_segment disk_config of
         None \<Rightarrow> requests = [] \<and> fst r = Inr (Response None)
       | Some digits \<Rightarrow>
           if isdigit digits then requests = [resize_call node vm_id slot digits]
           else requests = [] \<and> fst r = Inr (Response None))
   \<and> (CHR '':'' \<notin> set storage \<longrightarrow>
        size_segment (AStr (storage @ CHR '':'' # digits)) = Some digits)
   \<and> (isdigit digits \<and> (hd digits \<noteq> CHR ''0'' \<or> digits = ''0'') \<longrightarrow>
        str_nat (digits_to_nat digits) = digits)"
proof (intro conjI)
  show "let r = resize_lxc_disk srv node vm_id slot disk_config w;
            requests = filter is_request (new_events w (snd r))
        in case size_segment disk_config of
             None \<Rightarrow> requests = [] \<and> fst r = Inr (Response None)
           | Some digits \<Rightarrow>
               if isdigit digits then requests = [resize_call node vm_id slot digits]
               else requests = [] \<and> fst r = Inr (Response None)"
    using grows_new_events[OF resize_run[of w srv node vm_id slot disk_config]]
    by (auto simp add: Let_def resize_result resize_call_def split: option.splits atom.splits)
next
  show "CHR '':'' \<notin> set storage \<longrightarrow>
        size_segment (AStr (storage @ CHR '':'' # digits)) = Some digits"
    using size_segment_split by blast
next
  show "isdigit digits \<and> (hd digits \<noteq> CHR ''0'' \<or> digits = ''0'') \<longrightarrow>
        str_nat (digits_to_nat digits) = digits"
    using digits_roundtrip by blast
qed

lemma zero_size:
  "size_segment (AStr ''local-lvm:0'') = Some ''0''" "isdigit ''0''" "digits_to_nat ''0'' = 0"
  by (simp_all add: isdigit_def is_digit_def digit_val_def digits_to_nat_def)

text \<open>
  C6 as it is worded refuses every size that is not a positive integer. The size 0 is
  a digit string: the resize call is made, with size \<^verbatim>\<open>0G\<close>.
\<close>

theorem resize_lxc_disk_counterexample:
  "size_segment (AStr ''local-lvm:0'') = Some ''0'' \<and> digits_to_nat ''0'' = 0
   \<and> filter is_request (new_events \<lparr>calls = 0, trace = []\<rparr>
         (snd (resize_lxc_disk (\<lambda>i. Inr (Response None)) ''pve'' 215 ''rootfs''
                 (AStr ''local-lvm:0'') \<lparr>calls = 0, trace = []\<rparr>)))
       = [Request PUT ''nodes/pve/lxc/215/resize''
            (Some [(''disk'', Atom (AStr ''rootfs'')), (''size'', Atom (AStr ''0G''))])]"
  by code_simp

theorem resize_lxc_disk_witness:
  "filter is_request (new_events \<lparr>calls = 0, trace = []\<rparr>
         (snd (resize_lxc_disk (\<lambda>i. Inr (Response None)) ''pve'' 215 ''rootfs''
                 (AStr ''local-lvm:12'') \<lparr>calls = 0, trace = []\<rparr>)))
       = [resize_call ''pve'' 215 ''rootfs'' ''12'']
   \<and> size_segment (AStr (''local-lvm'' @ CHR '':'' # ''12'')) = Some ''12''
   \<and> str_nat (digits_to_nat ''12'') = ''12''"
  using resize_lxc_disk_validation[of "\<lambda>i. Inr (Response None)" "''pve''" 215 "''rootfs''"
      "AStr ''local-lvm:12''" "\<lparr>calls = 0, trace = []\<rparr>" "''local-lvm''" "''12''"]
  by (simp add: Let_def isdigit_def is_digit_def digit_val_def)

subsection \<open>Updating a container\<close>

lemma atom_eq_refl: "atom_eq a a"
  by (cases a) simp_all

lemma dict_eq_refl: "dict_eq d d"
proof -
  have "\<And>k. k \<in> set (map fst d) \<Longrightarrow> \<exists>v. map_of d k = Some v"
    by (metis map_of_eq_None_iff not_Some_eq set_map)
  then show ?thesis
    by (auto simp add: dict_eq_def list_all_iff atom_eq_refl split: option.splits)
qed

lemma py_eq_refl: "py_eq v v"
  by (cases v) (simp_all add: atom_eq_refl dict_eq_refl)

lemma get_lxc_int:
  "get_lxc srv node (Atom (AInt vm_id)) w =
     (case srv (calls w) of
        Inl e \<Rightarrow> ([], log Warn (w\<lparr>calls := Suc (calls w), trace := trace w @ [status_read node vm_id]\<rparr>))
      | Inr r \<Rightarrow> (data_of r, w\<lparr>calls := Suc (calls w), trace := trace w @ [status_read node vm_id]\<rparr>))"
  by (simp add: get_lxc_def make_request_def status_read_def split: sum.splits)

lemma status_of_empty: "status_of [] = ''unknown''"
  by (simp add: status_of_def)

lemma get_lxc_int_run:
  "grows w (snd (get_lxc srv node (Atom (AInt vm_id)) w))
     (status_read node vm_id # (case srv (calls w) of Inl e \<Rightarrow> [Log Warn] | Inr r \<Rightarrow> []))"
  "calls (snd (get_lxc srv node (Atom (AInt vm_id)) w)) = Suc (calls w)"
  "status_of (fst (get_lxc srv node (Atom (AInt vm_id)) w)) =
     (case srv (calls w) of Inl e \<Rightarrow> ''unknown'' | Inr r \<Rightarrow> status_of (data_of r))"
  by (simp_all add: get_lxc_int grows_def log_def status_read_def status_of_empty split: sum.splits)

lemma resize_each_run:
  "\<exists>evs. grows w (resize_each srv node vm_id d w) evs
         \<and> filter is_request evs = resize_calls node vm_id d"
proof (induction d arbitrary: w)
  case Nil
  show ?case using grows_refl[of w] by (auto simp add: resize_calls_def intro!: exI[of _ "[]"])
next
  case (Cons sd d)
  obtain slot disk_config where sd: "sd = (slot, disk_config)" by (cases sd)
  let ?r = "resize_lxc_disk srv node vm_id slot disk_config w"
  define e1 where "e1 = new_events w (snd ?r)"
  have g1: "grows w (snd ?r) e1"
    using resize_run[of w srv node vm_id slot disk_config]
    by (simp add: e1_def grows_new_events)
  have f1: "filter is_request e1 = resize_calls node vm_id [(slot, disk_config)]"
    using grows_new_events[OF resize_run[of w srv node vm_id slot disk_config]]
    by (auto simp add: e1_def resize_calls_def resize_call_def split: option.splits atom.splits)
  show ?case
  proof (cases "fst ?r")
    case (Inl e)
    obtain evs where "grows (log Warn (snd ?r)) (resize_each srv node vm_id d (log Warn (snd ?r))) evs"
      and "filter is_request evs = resize_calls node vm_id d"
      using Cons by blast
    with grows_trans[OF grows_trans[OF g1 grows_log[of _ Warn]]] f1 Inl sd show ?thesis
      by (cases ?r) (auto simp add: resize_calls_def intro!: exI)
  next
    case (Inr r)
    obtain evs where "grows (snd ?r) (resize_each srv node vm_id d (snd ?r)) evs"
      and "filter is_request evs = resize_calls node vm_id d"
      using Cons by blast
    with grows_trans[OF g1] f1 Inr sd show ?thesis
      by (cases ?r) (auto simp add: resize_calls_def intro!: exI)
  qed
qed

text \<open>The requests of \<open>update_lxc\<close>.\<close>

lemma update_lxc_requests:
  assumes "map_of params ''disks'' = Some (Dict d)"
  shows "filter is_request (new_events w (snd (update_lxc srv node vm_id params w))) =
     (case update_scalars params of
        Inl e \<Rightarrow> []
      | Inr p4 \<Rightarrow>
          resize_calls node vm_id d @
          (case update_rest params p4 of
             Inl e \<Rightarrow> []
           | Inr body \<Rightarrow>
               if body \<noteq> [] then [Request PUT (lxc_path node vm_id ''/config'') (Some body)]
               else []))"
proof (cases "update_scalars params")
  case (Inl e)
  then show ?thesis
    using grows_new_events[OF grows_log[of w Info]] by (simp add: update_lxc_def Let_def)
next
  case (Inr p4)
  obtain evs where g: "grows (log Info w) (resize_each srv node vm_id d (log Info w)) evs"
    and f: "filter is_request evs = resize_calls node vm_id d"
    using resize_each_run by blast
  define w1 where "w1 = resize_each srv node vm_id d (log Info w)"
  have g1: "grows w w1 ([Log Info] @ evs)"
    unfolding w1_def by (rule grows_trans[OF grows_log g])
  have ud: "update_disks srv node vm_id params (log Info w) = (Inr (), w1)"
    using assms by (simp add: update_disks_def w1_def)
  show ?thesis
  proof (cases "update_rest params p4")
    case (Inl e)
    then show ?thesis
      using Inr ud f grows_new_events[OF g1] by (simp add: update_lxc_def Let_def)
  next
    case body: (Inr body)
    show ?thesis
    proof (cases "body = []")
      case True
      have "grows w (log Info (log Info w1)) (([Log Info] @ evs) @ [Log Info] @ [Log Info])"
        by (intro grows_trans[OF g1] grows_trans[OF grows_log] grows_log)
      from grows_new_events[OF this] show ?thesis
        using Inr ud f body True by (simp add: update_lxc_def Let_def)
    next
      case False
      let ?rq = "make_request srv PUT (lxc_path node vm_id ''/config'') (Some body) (log Info w1)"
      have g2: "grows w (snd ?rq) (([Log Info] @ evs) @ [Log Info] @ [Request PUT (lxc_path node vm_id ''/config'') (Some body)])"
        by (intro grows_trans[OF g1] grows_trans[OF grows_log])
           (simp add: grows_def make_request_def)
      from grows_new_events[OF g2] grows_new_events[OF grows_trans[OF g2 grows_log[of _ Info]]]
      show ?thesis
        using Inr ud f body False
        by (cases ?rq) (auto simp add: update_lxc_def Let_def split: sum.splits)
    qed
  qed
qed

lemma map_of_delete: "k \<noteq> k' \<Longrightarrow> map_of (AList.delete k' al) k = map_of al k"
  by (simp add: AList.delete_conv')

lemma body_ignores_disks:
  "update_scalars (AList.delete ''disks'' params) = update_scalars params"
  "update_rest (AList.delete ''disks'' params) = update_rest params"
  by (simp_all add: update_scalars_def update_rest_def set_int_def set_plain_def
        update_networks_def update_features_def update_onboot_def map_of_delete fun_eq_iff)

lemma diff_field_same:
  "get new_props k = get old_props k \<Longrightarrow> diff_field new_props old_props k u = Inr u"
  by (simp add: diff_field_def py_eq_refl)

lemma diff_params_same:
  assumes "\<forall>k \<in> set mutable_fields. get new_props k = get old_props k"
  shows "diff_params new_props old_props = Inr []"
  using assms by (simp add: diff_params_def mutable_fields_def diff_field_same bind_err_def)

lemma noop_update:
  assumes "diff_params new_props old_props = Inr []"
  shows "fst (provider_update srv node vm_id old_props new_props w) =
           Inr ((old_props ++ new_props)(''status'' \<mapsto>
              Atom (AStr (case srv (calls w) of Inl e \<Rightarrow> ''unknown'' | Inr r \<Rightarrow> status_of (data_of r)))))"
    and "filter is_request (new_events w (snd (provider_update srv node vm_id old_props new_props w)))
           = [status_read node vm_id]"
proof -
  let ?g = "get_lxc srv node (Atom (AInt vm_id)) w"
  have pu: "provider_update srv node vm_id old_props new_props w =
      (Inr ((old_props ++ new_props)(''status'' \<mapsto> Atom (AStr (status_of (fst ?g))))), log Info (snd ?g))"
    using assms by (cases ?g) (simp add: provider_update_def)
  show "fst (provider_update srv node vm_id old_props new_props w) =
           Inr ((old_props ++ new_props)(''status'' \<mapsto>
              Atom (AStr (case srv (calls w) of Inl e \<Rightarrow> ''unknown'' | Inr r \<Rightarrow> status_of (data_of r)))))"
    by (simp add: pu get_lxc_int_run)
  have "grows w (log Info (snd ?g))
      ((status_read node vm_id # (case srv (calls w) of Inl e \<Rightarrow> [Log Warn] | Inr r \<Rightarrow> [])) @ [Log Info])"
    by (rule grows_trans[OF get_lxc_int_run(1) grows_log])
  from grows_new_events[OF this]
  show "filter is_request (new_events w (snd (provider_update srv node vm_id old_props new_props w)))
           = [status_read node vm_id]"
    by (simp add: pu status_read_def split: sum.splits)
qed

text \<open>
  C2, as the code has it. When old and new properties agree on every mutable field
  (hostname, cores, memory, swap, disks, networks, features, startup, onboot), the set
  of changed fields is empty, \<^verbatim>\<open>update_lxc\<close> is not called, so there is no resize
  call and no configuration request, and \<^verbatim>\<open>update\<close> succeeds with exactly one
  request, the status read.
\<close>

theorem update_equal_descriptors:
  assumes "\<forall>k \<in> set mutable_fields. get new_props k = get old_props k"
  shows "diff_params new_props old_props = Inr []
     \<and> fst (provider_update srv node vm_id old_props new_props w) =
           Inr ((old_props ++ new_props)(''status'' \<mapsto>
              Atom (AStr (case srv (calls w) of Inl e \<Rightarrow> ''unknown'' | Inr r \<Rightarrow> status_of (data_of r)))))
     \<and> filter is_request (new_events w (snd (provider_update srv node vm_id old_props new_props w)))
           = [status_read node vm_id]"
  using diff_params_same[OF assms] noop_update[OF diff_params_same[OF assms]] by simp

text \<open>Only the disks differ.\<close>

lemma diff_params_disks:
  assumes "\<forall>k \<in> set mutable_fields - {''disks''}. get new_props k = get old_props k"
    and "\<not> py_eq (get new_props ''disks'') (get old_props ''disks'')"
    and "new_props ''disks'' = Some v"
  shows "diff_params new_props old_props = Inr [(''disks'', v)]"
proof -
  have d: "diff_field new_props old_props ''disks'' [] = Inr [(''disks'', v)]"
    using assms(2,3) by (simp add: diff_field_def item_def bind_err_def)
  show ?thesis
    using assms(1) d
    by (simp add: diff_params_def mutable_fields_def diff_field_same bind_err_def)
qed

lemma disks_only_update:
  assumes "diff_params new_props old_props = Inr [(''disks'', Dict d)]"
  shows "filter is_request (new_events w (snd (provider_update srv node vm_id old_props new_props w)))
           = resize_calls node vm_id d @ [status_read node vm_id]"
    and "\<exists>outs. fst (provider_update srv node vm_id old_props new_props w) = Inr outs"
proof -
  let ?params = "[(''disks'', Dict d)]"
  let ?u = "update_lxc srv node vm_id ?params w"
  have sc: "update_scalars ?params = Inr []" "update_rest ?params [] = Inr []"
    by (simp_all add: update_scalars_def update_rest_def set_int_def set_plain_def
          update_networks_def update_features_def update_onboot_def bind_err_def)
  have req: "filter is_request (new_events w (snd ?u)) = resize_calls node vm_id d"
    using update_lxc_requests[of ?params d w srv node vm_id] by (simp add: sc)
  obtain evs where g: "grows (log Info w) (resize_each srv node vm_id d (log Info w)) evs"
    using resize_each_run by blast
  define w1 where "w1 = resize_each srv node vm_id d (log Info w)"
  have u: "?u = (Inr NullData, log Info (log Info w1))"
    by (simp add: update_lxc_def Let_def sc update_disks_def w1_def)
  have gu: "grows w (snd ?u) (([Log Info] @ evs) @ [Log Info] @ [Log Info])"
    unfolding u snd_conv w1_def
    by (intro grows_trans[OF grows_trans[OF grows_log g]] grows_trans[OF grows_log] grows_log)
  let ?g = "get_lxc srv node (Atom (AInt vm_id)) (snd ?u)"
  have pu: "provider_update srv node vm_id old_props new_props w =
      (Inr ((old_props ++ new_props)(''status'' \<mapsto> Atom (AStr (status_of (fst ?g))))), log Info (snd ?g))"
    using assms u by (cases ?g) (simp add: provider_update_def)
  have "grows w (log Info (snd ?g))
      ((([Log Info] @ evs) @ [Log Info] @ [Log Info])
       @ (status_read node vm_id # (case srv (calls (snd ?u)) of Inl e \<Rightarrow> [Log Warn] | Inr r \<Rightarrow> []))
       @ [Log Info])"
    by (intro grows_trans[OF gu] grows_trans[OF get_lxc_int_run(1)] grows_log)
  from grows_new_events[OF this] req grows_new_events[OF gu]
  show "filter is_request (new_events w (snd (provider_update srv node vm_id old_props new_props w)))
           = resize_calls node vm_id d @ [status_read node vm_id]"
    by (simp add: pu status_read_def split: sum.splits)
  show "\<exists>outs. fst (provider_update srv node vm_id old_props new_props w) = Inr outs"
    by (simp add: pu)
qed

lemma resize_calls_single:
  "CHR '':'' \<notin> set storage \<Longrightarrow> isdigit digits \<Longrightarrow>
   resize_calls node vm_id [(slot, AStr (storage @ CHR '':'' # digits))]
     = [resize_call node vm_id slot digits]"
  using size_segment_split[of storage digits]
  by (simp add: resize_calls_def del: size_segment.simps)

text \<open>
  C5, as the code has it. When old and new properties differ in the disks only,
  \<^verbatim>\<open>update\<close> succeeds and its requests are one resize call for every slot of the
  new disks dictionary that has a well-formed size, changed or not, in the order of
  the dictionary, followed by the status read; no configuration request is made. With
  \<^verbatim>\<open>rootfs\<close> the only slot that is exactly one resize call, for \<^verbatim>\<open>rootfs\<close> and
  the new size. In general \<^verbatim>\<open>update_lxc\<close> makes the resize calls of the disks it
  is given and then at most one configuration request, whose body does not depend on
  the disks.
\<close>

theorem update_disks_only:
  "((\<forall>k \<in> set mutable_fields - {''disks''}. get new_props k = get old_props k)
     \<and> \<not> py_eq (get new_props ''disks'') (get old_props ''disks'')
     \<and> new_props ''disks'' = Some (Dict d)
    \<longrightarrow> filter is_request (new_events w (snd (provider_update srv node vm_id old_props new_props w)))
           = resize_calls node vm_id d @ [status_read node vm_id]
        \<and> (\<exists>outs. fst (provider_update srv node vm_id old_props new_props w) = Inr outs))
   \<and> (CHR '':'' \<notin> set storage \<and> isdigit digits
      \<longrightarrow> resize_calls node vm_id [(''rootfs'', AStr (storage @ CHR '':'' # digits))]
           = [resize_call node vm_id ''rootfs'' digits])
   \<and> (map_of params ''disks'' = Some (Dict d)
      \<longrightarrow> filter is_request (new_events w (snd (update_lxc srv node vm_id params w))) =
          (case update_scalars params of
             Inl e \<Rightarrow> []
           | Inr p4 \<Rightarrow>
               resize_calls node vm_id d @
               (case update_rest params p4 of
                  Inl e \<Rightarrow> []
                | Inr body \<Rightarrow>
                    if body \<noteq> [] then [Request PUT (lxc_path node vm_id ''/config'') (Some body)]
                    else [])))
   \<and> update_scalars (AList.delete ''disks'' params) = update_scalars params
   \<and> update_rest (AList.delete ''disks'' params) = update_rest params"
proof -
  have a: "(\<forall>k \<in> set mutable_fields - {''disks''}. get new_props k = get old_props k)
     \<and> \<not> py_eq (get new_props ''disks'') (get old_props ''disks'')
     \<and> new_props ''disks'' = Some (Dict d)
    \<longrightarrow> filter is_request (new_events w (snd (provider_update srv node vm_id old_props new_props w)))
           = resize_calls node vm_id d @ [status_read node vm_id]
        \<and> (\<exists>outs. fst (provider_update srv node vm_id old_props new_props w) = Inr outs)"
  proof (intro impI, elim conjE)
    assume "\<forall>k \<in> set mutable_fields - {''disks''}. get new_props k = get old_props k"
      and "\<not> py_eq (get new_props ''disks'') (get old_props ''disks'')"
      and "new_props ''disks'' = Some (Dict d)"
    then have "diff_params new_props old_props = Inr [(''disks'', Dict d)]"
      by (rule diff_params_disks)
    then show "filter is_request (new_events w (snd (provider_update srv node vm_id old_props new_props w)))
           = resize_calls node vm_id d @ [status_read node vm_id]
        \<and> (\<exists>outs. fst (provider_update srv node vm_id old_props new_props w) = Inr outs)"
      using disks_only_update by blast
  qed
  show ?thesis
    using a resize_calls_single update_lxc_requests body_ignores_disks by blast
qed

text \<open>
  C10. Whenever \<^verbatim>\<open>update\<close> succeeds, its outputs are the old properties overlaid
  with the new ones, but for \<open>status\<close>: that is the status of the last request of
  the run, the status read, and \<open>unknown\<close> when that read failed. Every other key
  has its new value when the new properties have it and its old value, or none,
  otherwise.
\<close>

theorem update_outputs:
  assumes "provider_update srv node vm_id old_props new_props w = (Inr outs, w')"
  shows "outs ''status'' =
           Some (Atom (AStr (case srv (calls w' - 1) of
                                Inl e \<Rightarrow> ''unknown''
                              | Inr r \<Rightarrow> status_of (data_of r))))
     \<and> (\<forall>k. k \<noteq> ''status'' \<longrightarrow>
           outs k = (case new_props k of Some v \<Rightarrow> Some v | None \<Rightarrow> old_props k))"
proof -
  obtain update_params where dp: "diff_params new_props old_props = Inr update_params"
    using assms by (cases "diff_params new_props old_props") (simp_all add: provider_update_def)
  define u where "u = (if update_params \<noteq> [] then update_lxc srv node vm_id update_params w
                       else (Inr NullData, w))"
  obtain r w1 where u1: "u = (Inr r, w1)"
    using assms dp unfolding u_def
    by (cases "if update_params \<noteq> [] then update_lxc srv node vm_id update_params w
               else (Inr NullData, w)")
       (auto simp add: provider_update_def split: sum.splits)
  let ?g = "get_lxc srv node (Atom (AInt vm_id)) w1"
  have pu: "provider_update srv node vm_id old_props new_props w =
      (Inr ((old_props ++ new_props)(''status'' \<mapsto> Atom (AStr (status_of (fst ?g))))), log Info (snd ?g))"
    using dp u1 unfolding u_def by (cases ?g) (simp add: provider_update_def)
  have outs: "outs = (old_props ++ new_props)(''status'' \<mapsto> Atom (AStr (status_of (fst ?g))))"
    and w': "w' = log Info (snd ?g)"
    using assms pu by simp_all
  have c: "calls w' - Suc 0 = calls w1"
    by (simp add: w' log_def get_lxc_int_run)
  show ?thesis
    by (simp add: outs c get_lxc_int_run map_add_def split: option.splits)
qed

text \<open>
  C2 as it is worded has \<^verbatim>\<open>update\<close> make no network call at all. With equal
  descriptors the set of changes is empty and yet the status is read.
\<close>

theorem update_equal_descriptors_counterexample:
  "diff_params [''cores'' \<mapsto> Atom (AInt 2), ''memory'' \<mapsto> Atom (AInt 2024)]
               [''cores'' \<mapsto> Atom (AInt 2), ''memory'' \<mapsto> Atom (AInt 2024)] = Inr []
   \<and> filter is_request (new_events \<lparr>calls = 0, trace = []\<rparr>
        (snd (provider_update (\<lambda>i. Inr (Response (Some [(''status'', ''running'')]))) ''pve'' 215
                [''cores'' \<mapsto> Atom (AInt 2), ''memory'' \<mapsto> Atom (AInt 2024)]
                [''cores'' \<mapsto> Atom (AInt 2), ''memory'' \<mapsto> Atom (AInt 2024)]
                \<lparr>calls = 0, trace = []\<rparr>)))
     = [Request GET ''nodes/pve/lxc/215/status/current'' None]"
proof -
  have d: "diff_params [''cores'' \<mapsto> Atom (AInt 2), ''memory'' \<mapsto> Atom (AInt 2024)]
               [''cores'' \<mapsto> Atom (AInt 2), ''memory'' \<mapsto> Atom (AInt 2024)] = Inr []"
    by (rule diff_params_same) simp
  have p: "status_read ''pve'' 215 = Request GET ''nodes/pve/lxc/215/status/current'' None"
    by code_simp
  show ?thesis
    using d noop_update(2)[OF d] by (simp add: p)
qed

theorem update_equal_descriptors_witness:
  "diff_params [''cores'' \<mapsto> Atom (AInt 2), ''template'' \<mapsto> Atom (AStr ''debian'')]
               [''cores'' \<mapsto> Atom (AInt 2), ''template'' \<mapsto> Atom (AStr ''ubuntu'')] = Inr []
   \<and> filter is_request (new_events \<lparr>calls = 0, trace = []\<rparr>
        (snd (provider_update (\<lambda>i. Inl ''500 error'') ''pve'' 215
                [''cores'' \<mapsto> Atom (AInt 2), ''template'' \<mapsto> Atom (AStr ''ubuntu'')]
                [''cores'' \<mapsto> Atom (AInt 2), ''template'' \<mapsto> Atom (AStr ''debian'')]
                \<lparr>calls = 0, trace = []\<rparr>)))
     = [status_read ''pve'' 215]"
  using update_equal_descriptors[where
      new_props = "[''cores'' \<mapsto> Atom (AInt 2), ''template'' \<mapsto> Atom (AStr ''debian'')]"
      and old_props = "[''cores'' \<mapsto> Atom (AInt 2), ''template'' \<mapsto> Atom (AStr ''ubuntu'')]"
      and srv = "\<lambda>i. Inl ''500 error''" and node = "''pve''" and vm_id = 215
      and w = "\<lparr>calls = 0, trace = []\<rparr>"]
  by (simp add: mutable_fields_def get_def)

text \<open>
  C5 as it is worded has one resize call per changed slot. With a second slot
  \<^verbatim>\<open>mp0\<close> that did not change, a new size of \<^verbatim>\<open>rootfs\<close> gives two resize calls.
\<close>

lemma two_slots:
  "\<not> py_eq (Dict [(''rootfs'', AStr ''local-lvm:10''), (''mp0'', AStr ''local-lvm:10'')])
            (Dict [(''rootfs'', AStr ''local-lvm:8''), (''mp0'', AStr ''local-lvm:10'')])"
  "resize_calls ''pve'' 215 [(''rootfs'', AStr ''local-lvm:10''), (''mp0'', AStr ''local-lvm:10'')]
     = [Request PUT ''nodes/pve/lxc/215/resize''
          (Some [(''disk'', Atom (AStr ''rootfs'')), (''size'', Atom (AStr ''10G''))]),
        Request PUT ''nodes/pve/lxc/215/resize''
          (Some [(''disk'', Atom (AStr ''mp0'')), (''size'', Atom (AStr ''10G''))])]"
  "status_read ''pve'' 215 = Request GET ''nodes/pve/lxc/215/status/current'' None"
  by code_simp+

theorem update_disks_only_counterexample:
  "filter is_request (new_events \<lparr>calls = 0, trace = []\<rparr>
        (snd (provider_update (\<lambda>i. Inr (Response None)) ''pve'' 215
                [''cores'' \<mapsto> Atom (AInt 2),
                 ''disks'' \<mapsto> Dict [(''rootfs'', AStr ''local-lvm:8''), (''mp0'', AStr ''local-lvm:10'')]]
                [''cores'' \<mapsto> Atom (AInt 2),
                 ''disks'' \<mapsto> Dict [(''rootfs'', AStr ''local-lvm:10''), (''mp0'', AStr ''local-lvm:10'')]]
                \<lparr>calls = 0, trace = []\<rparr>)))
     = [Request PUT ''nodes/pve/lxc/215/resize''
          (Some [(''disk'', Atom (AStr ''rootfs'')), (''size'', Atom (AStr ''10G''))]),
        Request PUT ''nodes/pve/lxc/215/resize''
          (Some [(''disk'', Atom (AStr ''mp0'')), (''size'', Atom (AStr ''10G''))]),
        Request GET ''nodes/pve/lxc/215/status/current'' None]"
proof -
  have "diff_params
      [''cores'' \<mapsto> Atom (AInt 2),
       ''disks'' \<mapsto> Dict [(''rootfs'', AStr ''local-lvm:10''), (''mp0'', AStr ''local-lvm:10'')]]
      [''cores'' \<mapsto> Atom (AInt 2),
       ''disks'' \<mapsto> Dict [(''rootfs'', AStr ''local-lvm:8''), (''mp0'', AStr ''local-lvm:10'')]]
    = Inr [(''disks'', Dict [(''rootfs'', AStr ''local-lvm:10''), (''mp0'', AStr ''local-lvm:10'')])]"
    by (rule diff_params_disks) (simp_all add: mutable_fields_def get_def two_slots del: py_eq.simps)
  from disks_only_update(1)[OF this] show ?thesis
    by (simp add: two_slots)
qed

lemma one_slot:
  "\<not> py_eq (Dict [(''rootfs'', AStr ''local-lvm:12'')]) (Dict [(''rootfs'', AStr ''local-lvm:8'')])"
  "isdigit ''12''"
  by code_simp+

theorem update_disks_only_witness:
  "filter is_request (new_events \<lparr>calls = 0, trace = []\<rparr>
        (snd (provider_update (\<lambda>i. Inr (Response None)) ''pve'' 215
                [''cores'' \<mapsto> Atom (AInt 2), ''disks'' \<mapsto> Dict [(''rootfs'', AStr ''local-lvm:8'')]]
                [''cores'' \<mapsto> Atom (AInt 2), ''disks'' \<mapsto> Dict [(''rootfs'', AStr ''local-lvm:12'')]]
                \<lparr>calls = 0, trace = []\<rparr>)))
     = [resize_call ''pve'' 215 ''rootfs'' ''12'', status_read ''pve'' 215]
   \<and> isdigit ''12''
   \<and> filter is_request (new_events \<lparr>calls = 0, trace = []\<rparr>
        (snd (update_lxc (\<lambda>i. Inr (Response None)) ''pve'' 215
                [(''disks'', Dict [(''rootfs'', AStr ''local-lvm:12'')]), (''cores'', Atom (AInt 3))]
                \<lparr>calls = 0, trace = []\<rparr>)))
     = [resize_call ''pve'' 215 ''rootfs'' ''12'',
        Request PUT (lxc_path ''pve'' 215 ''/config'') (Some [(''cores'', Atom (AInt 3))])]"
  using update_disks_only[where
      new_props = "[''cores'' \<mapsto> Atom (AInt 2), ''disks'' \<mapsto> Dict [(''rootfs'', AStr ''local-lvm:12'')]]"
      and old_props = "[''cores'' \<mapsto> Atom (AInt 2), ''disks'' \<mapsto> Dict [(''rootfs'', AStr ''local-lvm:8'')]]"
      and d = "[(''rootfs'', AStr ''local-lvm:12'')]"
      and srv = "\<lambda>i. Inr (Response None)" and node = "''pve''" and vm_id = 215
      and w = "\<lparr>calls = 0, trace = []\<rparr>"
      and storage = "''local-lvm''" and digits = "''12''"
      and params = "[(''disks'', Dict [(''rootfs'', AStr ''local-lvm:12'')]), (''cores'', Atom (AInt 3))]"]
  by (simp add: mutable_fields_def get_def one_slot update_scalars_def update_rest_def set_int_def
        set_plain_def update_networks_def update_features_def update_onboot_def bind_err_def
        del: py_eq.simps)

lemma cores_run:
  "provider_update
      (\<lambda>i. if i = 0 then Inr (Response None) else Inr (Response (Some [(''status'', ''running'')])))
      ''pve'' 215
      [''cores'' \<mapsto> Atom (AInt 2), ''status'' \<mapsto> Atom (AStr ''stopped''),
       ''template'' \<mapsto> Atom (AStr ''ubuntu'')]
      [''cores'' \<mapsto> Atom (AInt 3)]
      \<lparr>calls = 0, trace = []\<rparr>
   = (Inr ((([''cores'' \<mapsto> Atom (AInt 2), ''status'' \<mapsto> Atom (AStr ''stopped''),
             ''template'' \<mapsto> Atom (AStr ''ubuntu'')]) ++ [''cores'' \<mapsto> Atom (AInt 3)])
            (''status'' \<mapsto> Atom (AStr ''running''))),
      \<lparr>calls = 2,
       trace = [Log Info, Log Info,
                Request PUT ''nodes/pve/lxc/215/config'' (Some [(''cores'', Atom (AInt 3))]),
                Log Info,
                Request GET ''nodes/pve/lxc/215/status/current'' None,
                Log Info]\<rparr>)"
  by (simp add: provider_update_def diff_params_def diff_field_def get_def item_def bind_err_def
        update_lxc_def update_scalars_def update_rest_def update_disks_def set_int_def set_plain_def
        update_networks_def update_features_def update_onboot_def log_def make_request_def
        get_lxc_def lxc_path_def str_int_def str_nat.simps digit_char_def data_of_def status_of_def
        Let_def)

theorem update_outputs_witness:
  "fst (provider_update
      (\<lambda>i. if i = 0 then Inr (Response None) else Inr (Response (Some [(''status'', ''running'')])))
      ''pve'' 215
      [''cores'' \<mapsto> Atom (AInt 2), ''status'' \<mapsto> Atom (AStr ''stopped''),
       ''template'' \<mapsto> Atom (AStr ''ubuntu'')]
      [''cores'' \<mapsto> Atom (AInt 3)]
      \<lparr>calls = 0, trace = []\<rparr>)
   = Inr [''cores'' \<mapsto> Atom (AInt 3), ''status'' \<mapsto> Atom (AStr ''running''),
          ''template'' \<mapsto> Atom (AStr ''ubuntu'')]"
  using update_outputs[OF cores_run] cores_run
  by (auto simp add: fun_eq_iff map_add_def)

subsection \<open>Creating a container or a virtual machine\<close>


lemma create_lxc_calls:
  "create_lxc srv node vm_id params w = (Inr r, w1) \<Longrightarrow> calls w1 = Suc (calls w)"
  by (auto simp add: create_lxc_def Let_def make_request_def log_def split: sum.splits)




lemma map_of_filter_distinct:
  "distinct (map fst kvs) \<Longrightarrow>
   map_of (filter (\<lambda>(k, v). P v) kvs) k =
     (case map_of kvs k of None \<Rightarrow> None | Some v \<Rightarrow> if P v then Some v else None)"
proof (induction kvs)
  case Nil
  show ?case by simp
next
  case (Cons kv kvs)
  obtain k' v' where kv: "kv = (k', v')" by (cases kv)
  have "k' \<notin> fst ` set kvs" using Cons.prems kv by simp
  then have "map_of kvs k' = None" by (simp add: map_of_eq_None_iff)
  with Cons kv show ?case by (auto split: option.splits)
qed

lemma lxc_keys: "distinct (map fst (LXCContainerArgs a @ config_entries cfg))"
  by (simp add: LXCContainerArgs_def config_entries_def)

lemma vm_keys: "distinct (map fst (VirtualMachineArgs a @ config_entries cfg))"
  by (simp add: VirtualMachineArgs_def config_entries_def)

lemma lxc_props:
  "LXCContainer cfg (LXCContainerArgs a) k =
     (case map_of (LXCContainerArgs a @ config_entries cfg) k of
        None \<Rightarrow> None
      | Some v \<Rightarrow> if v \<noteq> Atom ANone then Some v else None)"
  unfolding LXCContainer_def remove_none_def by (rule map_of_filter_distinct[OF lxc_keys])

lemma vm_props:
  "VirtualMachine cfg (VirtualMachineArgs a) k =
     (case map_of (VirtualMachineArgs a @ config_entries cfg) k of
        None \<Rightarrow> None
      | Some v \<Rightarrow> if v \<noteq> Atom ANone then Some v else None)"
  unfolding VirtualMachine_def remove_none_def by (rule map_of_filter_distinct[OF vm_keys])

lemma lxc_lookups:
  "map_of (LXCContainerArgs a @ config_entries cfg) ''vm_id'' = Some (opt_int (arg_vm_id a))"
  "map_of (LXCContainerArgs a @ config_entries cfg) ''cores'' = Some (Atom (AInt (int_or (arg_cores a) 1)))"
  "map_of (LXCContainerArgs a @ config_entries cfg) ''memory'' = Some (Atom (AInt (int_or (arg_memory a) 512)))"
  "map_of (LXCContainerArgs a @ config_entries cfg) ''swap'' = Some (Atom (AInt (int_or (arg_swap a) 512)))"
  "map_of (LXCContainerArgs a @ config_entries cfg) ''disks'' =
     Some (disks_attr (arg_disks a) (arg_disk_size a) ''rootfs'' ''local-lvm:8'')"
  "map_of (LXCContainerArgs a @ config_entries cfg) ''networks'' =
     Some (networks_attr (arg_networks a) (arg_network a) ''name=eth0,bridge=vmbr0,ip=dhcp'')"
  "map_of (LXCContainerArgs a @ config_entries cfg) ''unprivileged'' =
     Some (Atom (ABool (case arg_unprivileged a of None \<Rightarrow> True | Some b \<Rightarrow> b)))"
  "map_of (LXCContainerArgs a @ config_entries cfg) ''features'' =
     Some (case arg_features a of None \<Rightarrow> Dict [] | Some d \<Rightarrow> str_dict d)"
  by (simp_all add: LXCContainerArgs_def)

lemma vm_lookups:
  "map_of (VirtualMachineArgs a @ config_entries cfg) ''vm_id'' = Some (opt_int (vma_vm_id a))"
  "map_of (VirtualMachineArgs a @ config_entries cfg) ''cores'' = Some (Atom (AInt (int_or (vma_cores a) 1)))"
  "map_of (VirtualMachineArgs a @ config_entries cfg) ''memory'' = Some (Atom (AInt (int_or (vma_memory a) 512)))"
  "map_of (VirtualMachineArgs a @ config_entries cfg) ''disks'' =
     Some (disks_attr (vma_disks a) (vma_disk_size a) ''scsi0'' ''local-lvm:20'')"
  "map_of (VirtualMachineArgs a @ config_entries cfg) ''networks'' =
     Some (networks_attr (vma_networks a) (vma_network a) ''virtio,bridge=vmbr0'')"
  by (simp_all add: VirtualMachineArgs_def)

lemma lxc_prop_values:
  "LXCContainer cfg (LXCContainerArgs a) ''vm_id'' = map_option (\<lambda>i. Atom (AInt i)) (arg_vm_id a)"
  "LXCContainer cfg (LXCContainerArgs a) ''cores'' = Some (Atom (AInt (int_or (arg_cores a) 1)))"
  "LXCContainer cfg (LXCContainerArgs a) ''memory'' = Some (Atom (AInt (int_or (arg_memory a) 512)))"
  "LXCContainer cfg (LXCContainerArgs a) ''swap'' = Some (Atom (AInt (int_or (arg_swap a) 512)))"
  "LXCContainer cfg (LXCContainerArgs a) ''disks'' =
     Some (disks_attr (arg_disks a) (arg_disk_size a) ''rootfs'' ''local-lvm:8'')"
  "LXCContainer cfg (LXCContainerArgs a) ''networks'' =
     Some (networks_attr (arg_networks a) (arg_network a) ''name=eth0,bridge=vmbr0,ip=dhcp'')"
  "LXCContainer cfg (LXCContainerArgs a) ''unprivileged'' =
     Some (Atom (ABool (case arg_unprivileged a of None \<Rightarrow> True | Some b \<Rightarrow> b)))"
  "LXCContainer cfg (LXCContainerArgs a) ''features'' =
     Some (case arg_features a of None \<Rightarrow> Dict [] | Some d \<Rightarrow> str_dict d)"
  unfolding lxc_props lxc_lookups
  by (simp_all add: opt_int_def disks_attr_def networks_attr_def str_dict_def split: option.splits)

lemma vm_prop_values:
  "VirtualMachine cfg (VirtualMachineArgs a) ''vm_id'' = map_option (\<lambda>i. Atom (AInt i)) (vma_vm_id a)"
  "VirtualMachine cfg (VirtualMachineArgs a) ''cores'' = Some (Atom (AInt (int_or (vma_cores a) 1)))"
  "VirtualMachine cfg (VirtualMachineArgs a) ''memory'' = Some (Atom (AInt (int_or (vma_memory a) 512)))"
  "VirtualMachine cfg (VirtualMachineArgs a) ''disks'' =
     Some (disks_attr (vma_disks a) (vma_disk_size a) ''scsi0'' ''local-lvm:20'')"
  "VirtualMachine cfg (VirtualMachineArgs a) ''networks'' =
     Some (networks_attr (vma_networks a) (vma_network a) ''virtio,bridge=vmbr0'')"
  unfolding vm_props vm_lookups
  by (simp_all add: opt_int_def disks_attr_def networks_attr_def str_dict_def split: option.splits)

lemma vm_id_int:
  "props ''vm_id'' = map_option (\<lambda>i. Atom (AInt i)) v \<Longrightarrow>
   \<exists>n. py_int (if truthy (get props ''vm_id'') then get props ''vm_id'' else Atom (AInt d)) = Inr n"
  by (cases v) (simp_all add: get_def)

lemma lxc_vm_id: "\<exists>n. py_int (chosen_vm_id (LXCContainer cfg (LXCContainerArgs a))) = Inr n"
  unfolding chosen_vm_id_def
  using vm_id_int[where props = "LXCContainer cfg (LXCContainerArgs a)" and v = "arg_vm_id a"]
    lxc_prop_values(1)[of cfg a]
  by blast

text \<open>Lookups in the parameter set.\<close>

lemma map_of_set_truthy:
  "name \<noteq> k \<Longrightarrow> map_of (set_truthy params p name body) k = map_of body k"
  by (simp add: set_truthy_def Let_def AList.update_conv')

lemma map_of_create_onboot:
  "k \<noteq> ''onboot'' \<Longrightarrow> map_of (create_onboot params body) k = map_of body k"
  by (simp add: create_onboot_def Let_def AList.update_conv')

lemma create_features_dict:
  "kw_get params ''features'' (Dict []) = Dict d \<Longrightarrow>
   \<exists>b. create_features params body = Inr b \<and> (\<forall>k. k \<noteq> ''features'' \<longrightarrow> map_of b k = map_of body k)"
  by (simp add: create_features_def Let_def bind_err_def AList.update_conv')

lemma create_items_dict:
  "kw_get params k (Dict []) = Dict d \<Longrightarrow> create_items params k body = Inr (set_items d body)"
  by (simp add: create_items_def bind_err_def)

lemma set_items_single: "map_of (set_items [(slot, v)] body) = (map_of body)(slot \<mapsto> Atom v)"
  by (simp add: set_items_def AList.update_conv')

lemma create_params_lookup:
  assumes "create_base vm_id params = Inr base"
    and "kw_get params ''disks'' (Dict []) = Dict [(slot, v)]"
    and "kw_get params ''networks'' (Dict []) = Dict [(net, u)]"
    and "kw_get params ''features'' (Dict []) = Dict fs"
  shows "\<exists>body. create_params vm_id params = Inr body
       \<and> (\<forall>k. plain_key k \<longrightarrow> map_of body k = ((map_of base)(slot \<mapsto> Atom v, net \<mapsto> Atom u)) k)"
proof -
  define p1 where "p1 = set_items [(slot, v)]
      (set_truthy params ''ssh_public_keys'' ''ssh-public-keys''
        (set_truthy params ''password'' ''password''
          (set_truthy params ''ostemplate'' ''ostemplate'' base)))"
  define p2 where "p2 = set_items [(net, u)] p1"
  obtain p3 where p3: "create_features params p2 = Inr p3"
    and k3: "\<forall>k. k \<noteq> ''features'' \<longrightarrow> map_of p3 k = map_of p2 k"
    using create_features_dict[OF assms(4)] by blast
  have cp: "create_params vm_id params =
      Inr (create_onboot params (set_truthy params ''startup'' ''startup'' p3))"
    using assms(1) p3
    by (simp add: create_params_def bind_err_def create_items_dict[OF assms(2)]
          create_items_dict[OF assms(3)] p1_def p2_def)
  have "\<forall>k. plain_key k \<longrightarrow>
      map_of (create_onboot params (set_truthy params ''startup'' ''startup'' p3)) k
        = ((map_of base)(slot \<mapsto> Atom v, net \<mapsto> Atom u)) k"
    using k3
    by (auto simp add: plain_key_def map_of_create_onboot map_of_set_truthy p2_def p1_def
          set_items_single)
  with cp show ?thesis by blast
qed

lemma create_lxc_requests:
  "create_params vm_id params = Inr body \<Longrightarrow>
   filter is_request (new_events w (snd (create_lxc srv node vm_id params w)))
     = [Request POST (''nodes/'' @ node @ ''/lxc'') (Some body)]"
  by (auto simp add: create_lxc_def Let_def new_events_def make_request_def log_def split: sum.splits)

lemma create_base_defaults:
  assumes "py_int vm_id = Inr n"
    and "map_of params ''cores'' = None" "map_of params ''memory'' = None"
    and "map_of params ''swap'' = None" "map_of params ''unprivileged'' = None"
  shows "create_base vm_id params =
     Inr [(''vmid'', Atom (AInt n)), (''cores'', Atom (AInt 1)), (''memory'', Atom (AInt 512)),
          (''swap'', Atom (AInt 512)),
          (''hostname'', kw_get params ''hostname'' (Atom (AStr (''lxc-'' @ py_str vm_id)))),
          (''unprivileged'', Atom (AInt 1))]"
  using assms by (simp add: create_base_def bind_err_def kw_get_def)

lemma kwargs_lookups:
  "kw_get (create_kwargs props vm_id) ''cores'' d1 = get_or props ''cores'' (Atom (AInt 1))"
  "kw_get (create_kwargs props vm_id) ''memory'' d2 = get_or props ''memory'' (Atom (AInt 512))"
  "kw_get (create_kwargs props vm_id) ''swap'' d3 = get_or props ''swap'' (Atom (AInt 512))"
  "kw_get (create_kwargs props vm_id) ''unprivileged'' d4 = get_or props ''unprivileged'' (Atom (ABool True))"
  "kw_get (create_kwargs props vm_id) ''hostname'' d5 =
     get_or props ''hostname'' (Atom (AStr (''lxc-'' @ py_str vm_id)))"
  "kw_get (create_kwargs props vm_id) ''disks'' d6 = get_or props ''disks'' (Dict [])"
  "kw_get (create_kwargs props vm_id) ''networks'' d7 = get_or props ''networks'' (Dict [])"
  "kw_get (create_kwargs props vm_id) ''features'' d8 = get_or props ''features'' (Dict [])"
  by (simp_all add: create_kwargs_def kw_get_def)

lemma vm_kwargs_lookups:
  "kw_get (vm_kwargs props vm_id) ''cores'' d1 = get_or props ''cores'' (Atom (AInt 1))"
  "kw_get (vm_kwargs props vm_id) ''memory'' d2 = get_or props ''memory'' (Atom (AInt 512))"
  "kw_get (vm_kwargs props vm_id) ''name'' d5 =
     get_or props ''name'' (Atom (AStr (''vm-'' @ py_str vm_id)))"
  "kw_get (vm_kwargs props vm_id) ''disks'' d6 = get_or props ''disks'' (Dict [])"
  "kw_get (vm_kwargs props vm_id) ''networks'' d7 = get_or props ''networks'' (Dict [])"
  by (simp_all add: vm_kwargs_def kw_get_def)

lemma create_base_props:
  assumes "py_int vm_id = Inr n"
    and "get_or props ''cores'' (Atom (AInt 1)) = Atom (AInt c)"
    and "get_or props ''memory'' (Atom (AInt 512)) = Atom (AInt m)"
    and "get_or props ''swap'' (Atom (AInt 512)) = Atom (AInt s)"
    and "get_or props ''unprivileged'' (Atom (ABool True)) = Atom (ABool u)"
  shows "create_base vm_id (create_kwargs props vm_id) =
     Inr [(''vmid'', Atom (AInt n)), (''cores'', Atom (AInt c)), (''memory'', Atom (AInt m)),
          (''swap'', Atom (AInt s)),
          (''hostname'', get_or props ''hostname'' (Atom (AStr (''lxc-'' @ py_str vm_id)))),
          (''unprivileged'', Atom (AInt (if u then 1 else 0)))]"
  using assms by (simp add: create_base_def bind_err_def kwargs_lookups)

lemma vm_params_props:
  assumes "py_int vm_id = Inr n"
    and "get_or props ''cores'' (Atom (AInt 1)) = Atom (AInt c)"
    and "get_or props ''memory'' (Atom (AInt 512)) = Atom (AInt m)"
    and "get_or props ''disks'' (Dict []) = Dict [(slot, v)]"
    and "get_or props ''networks'' (Dict []) = Dict [(net, u)]"
  shows "\<exists>body. vm_params vm_id (vm_kwargs props vm_id) = Inr body
       \<and> map_of body =
           [''vmid'' \<mapsto> Atom (AInt n), ''cores'' \<mapsto> Atom (AInt c), ''memory'' \<mapsto> Atom (AInt m),
            ''name'' \<mapsto> get_or props ''name'' (Atom (AStr (''vm-'' @ py_str vm_id))),
            slot \<mapsto> Atom v, net \<mapsto> Atom u]"
  using assms
  by (simp add: vm_params_def vm_base_def bind_err_def vm_kwargs_lookups create_items_def
        set_items_single fun_eq_iff)

lemma create_vm_requests:
  "vm_params vm_id params = Inr body \<Longrightarrow>
   filter is_request (new_events w (snd (create_vm srv node vm_id params w)))
     = [Request POST (''nodes/'' @ node @ ''/qemu'') (Some body)]"
  by (auto simp add: create_vm_def Let_def new_events_def make_request_def log_def split: sum.splits)

lemma vm_vm_id: "\<exists>n. py_int (chosen_vm (VirtualMachine cfg (VirtualMachineArgs b))) = Inr n"
  unfolding chosen_vm_def
  using vm_id_int[where props = "VirtualMachine cfg (VirtualMachineArgs b)" and v = "vma_vm_id b"]
    vm_prop_values(1)[of cfg b]
  by blast

lemma lxc_defaults:
  fixes cfg :: proxmox_config and a :: lxc_container_args
  assumes "arg_disks a = None" "arg_disk_size a = None" "arg_networks a = None" "arg_network a = None"
  defines "props \<equiv> LXCContainer cfg (LXCContainerArgs a)"
  shows "props ''disks'' = Some (Dict [(''rootfs'', AStr ''local-lvm:8'')])
       \<and> props ''networks'' = Some (Dict [(''net0'', AStr ''name=eth0,bridge=vmbr0,ip=dhcp'')])
       \<and> (\<exists>body. create_params (chosen_vm_id props) (create_kwargs props (chosen_vm_id props)) = Inr body
          \<and> map_of body ''rootfs'' = Some (Atom (AStr ''local-lvm:8''))
          \<and> map_of body ''net0'' = Some (Atom (AStr ''name=eth0,bridge=vmbr0,ip=dhcp''))
          \<and> (arg_cores a = None \<longrightarrow> map_of body ''cores'' = Some (Atom (AInt 1)))
          \<and> (arg_memory a = None \<longrightarrow> map_of body ''memory'' = Some (Atom (AInt 512)))
          \<and> (arg_swap a = None \<longrightarrow> map_of body ''swap'' = Some (Atom (AInt 512)))
          \<and> (arg_unprivileged a = None \<longrightarrow> map_of body ''unprivileged'' = Some (Atom (AInt 1)))
          \<and> filter is_request (new_events w (snd (create_lxc srv node (chosen_vm_id props)
                (create_kwargs props (chosen_vm_id props)) w)))
              = [Request POST (''nodes/'' @ node @ ''/lxc'') (Some body)])"
proof -
  have d: "props ''disks'' = Some (Dict [(''rootfs'', AStr ''local-lvm:8'')])"
    and nw: "props ''networks'' = Some (Dict [(''net0'', AStr ''name=eth0,bridge=vmbr0,ip=dhcp'')])"
    using assms(1-4) by (simp_all add: props_def lxc_prop_values disks_attr_def networks_attr_def)
  obtain n where n: "py_int (chosen_vm_id props) = Inr n"
    using lxc_vm_id unfolding props_def by blast
  define u where "u = (case arg_unprivileged a of None \<Rightarrow> True | Some b \<Rightarrow> b)"
  define base where "base =
         [(''vmid'', Atom (AInt n)), (''cores'', Atom (AInt (int_or (arg_cores a) 1))),
          (''memory'', Atom (AInt (int_or (arg_memory a) 512))),
          (''swap'', Atom (AInt (int_or (arg_swap a) 512))),
          (''hostname'', get_or props ''hostname'' (Atom (AStr (''lxc-'' @ py_str (chosen_vm_id props))))),
          (''unprivileged'', Atom (AInt (if u then 1 else 0)))]"
  have base: "create_base (chosen_vm_id props) (create_kwargs props (chosen_vm_id props)) = Inr base"
    unfolding base_def
    by (intro create_base_props[OF n])
       (simp_all add: props_def get_or_def lxc_prop_values u_def)
  have "\<exists>fs. kw_get (create_kwargs props (chosen_vm_id props)) ''features'' (Dict []) = Dict fs"
    by (simp add: kwargs_lookups get_or_def props_def lxc_prop_values str_dict_def split: option.splits)
  then obtain fs where fs: "kw_get (create_kwargs props (chosen_vm_id props)) ''features'' (Dict []) = Dict fs"
    by blast
  obtain body where b1: "create_params (chosen_vm_id props) (create_kwargs props (chosen_vm_id props)) = Inr body"
    and b2: "\<forall>k. plain_key k \<longrightarrow> map_of body k =
        ((map_of base)(''rootfs'' \<mapsto> Atom (AStr ''local-lvm:8''),
          ''net0'' \<mapsto> Atom (AStr ''name=eth0,bridge=vmbr0,ip=dhcp''))) k"
    using create_params_lookup[OF base _ _ fs, of "''rootfs''" "AStr ''local-lvm:8''"
        "''net0''" "AStr ''name=eth0,bridge=vmbr0,ip=dhcp''"] d nw
    by (auto simp add: kwargs_lookups get_or_def)
  have "map_of body ''rootfs'' = Some (Atom (AStr ''local-lvm:8''))"
    "map_of body ''net0'' = Some (Atom (AStr ''name=eth0,bridge=vmbr0,ip=dhcp''))"
    "arg_cores a = None \<longrightarrow> map_of body ''cores'' = Some (Atom (AInt 1))"
    "arg_memory a = None \<longrightarrow> map_of body ''memory'' = Some (Atom (AInt 512))"
    "arg_swap a = None \<longrightarrow> map_of body ''swap'' = Some (Atom (AInt 512))"
    "arg_unprivileged a = None \<longrightarrow> map_of body ''unprivileged'' = Some (Atom (AInt 1))"
    using b2 by (simp_all add: plain_key_def base_def int_or_def u_def)
  with b1 create_lxc_requests[OF b1, of w srv node] d nw show ?thesis
    by simp
qed

lemma vm_defaults:
  fixes cfg :: proxmox_config and b :: virtual_machine_args
  assumes "vma_disks b = None" "vma_disk_size b = None" "vma_networks b = None" "vma_network b = None"
  defines "props \<equiv> VirtualMachine cfg (VirtualMachineArgs b)"
  shows "props ''disks'' = Some (Dict [(''scsi0'', AStr ''local-lvm:20'')])
       \<and> props ''networks'' = Some (Dict [(''net0'', AStr ''virtio,bridge=vmbr0'')])
       \<and> (\<exists>body. vm_params (chosen_vm props) (vm_kwargs props (chosen_vm props)) = Inr body
          \<and> map_of body ''scsi0'' = Some (Atom (AStr ''local-lvm:20''))
          \<and> map_of body ''net0'' = Some (Atom (AStr ''virtio,bridge=vmbr0''))
          \<and> (vma_cores b = None \<longrightarrow> map_of body ''cores'' = Some (Atom (AInt 1)))
          \<and> (vma_memory b = None \<longrightarrow> map_of body ''memory'' = Some (Atom (AInt 512)))
          \<and> filter is_request (new_events w (snd (create_vm srv node (chosen_vm props)
                (vm_kwargs props (chosen_vm props)) w)))
              = [Request POST (''nodes/'' @ node @ ''/qemu'') (Some body)])"
proof -
  have d: "props ''disks'' = Some (Dict [(''scsi0'', AStr ''local-lvm:20'')])"
    and nw: "props ''networks'' = Some (Dict [(''net0'', AStr ''virtio,bridge=vmbr0'')])"
    using assms(1-4) by (simp_all add: props_def vm_prop_values disks_attr_def networks_attr_def)
  obtain n where n: "py_int (chosen_vm props) = Inr n"
    using vm_vm_id unfolding props_def by blast
  obtain body where b1: "vm_params (chosen_vm props) (vm_kwargs props (chosen_vm props)) = Inr body"
    and b2: "map_of body =
           [''vmid'' \<mapsto> Atom (AInt n), ''cores'' \<mapsto> Atom (AInt (int_or (vma_cores b) 1)),
            ''memory'' \<mapsto> Atom (AInt (int_or (vma_memory b) 512)),
            ''name'' \<mapsto> get_or props ''name'' (Atom (AStr (''vm-'' @ py_str (chosen_vm props)))),
            ''scsi0'' \<mapsto> Atom (AStr ''local-lvm:20''), ''net0'' \<mapsto> Atom (AStr ''virtio,bridge=vmbr0'')]"
    using vm_params_props[OF n, of props "int_or (vma_cores b) 1" "int_or (vma_memory b) 512"
        "''scsi0''" "AStr ''local-lvm:20''" "''net0''" "AStr ''virtio,bridge=vmbr0''"] d nw
    by (auto simp add: get_or_def props_def vm_prop_values)
  have "map_of body ''scsi0'' = Some (Atom (AStr ''local-lvm:20''))"
    "map_of body ''net0'' = Some (Atom (AStr ''virtio,bridge=vmbr0''))"
    "vma_cores b = None \<longrightarrow> map_of body ''cores'' = Some (Atom (AInt 1))"
    "vma_memory b = None \<longrightarrow> map_of body ''memory'' = Some (Atom (AInt 512))"
    by (simp_all add: b2 int_or_def)
  with b1 create_vm_requests[OF b1, of w srv node] d nw show ?thesis
    by simp
qed

lemma create_base_omitted:
  assumes "py_int (chosen_vm_id props) = Inr n"
    and "props ''cores'' = None" "props ''memory'' = None" "props ''swap'' = None"
    and "props ''unprivileged'' = None"
  shows "create_base (chosen_vm_id props) (create_kwargs props (chosen_vm_id props)) =
     Inr [(''vmid'', Atom (AInt n)), (''cores'', Atom (AInt 1)), (''memory'', Atom (AInt 512)),
          (''swap'', Atom (AInt 512)),
          (''hostname'', get_or props ''hostname'' (Atom (AStr (''lxc-'' @ py_str (chosen_vm_id props))))),
          (''unprivileged'', Atom (AInt 1))]"
  using create_base_props[OF assms(1), of props 1 512 512 True] assms(2-5)
  by (simp add: get_or_def)

text \<open>
  C8. When neither disks nor the legacy disk size, and neither networks nor the legacy
  network, are supplied, the properties of a container carry the disks
  \<^verbatim>\<open>{"rootfs": "local-lvm:8"}\<close> and the networks
  \<^verbatim>\<open>{"net0": "name=eth0,bridge=vmbr0,ip=dhcp"}\<close>, the parameter set of the create
  request has \<open>rootfs\<close> and \<open>net0\<close> with these values, and every one of cores,
  memory, swap and unprivileged that was omitted is 1, 512, 512 and 1 (true) there.
  For a virtual machine the defaults are \<^verbatim>\<open>{"scsi0": "local-lvm:20"}\<close> and the
  bridged \<^verbatim>\<open>{"net0": "virtio,bridge=vmbr0"}\<close>, with cores 1 and memory 512.
  For properties given to \<^verbatim>\<open>create\<close> without cores, memory, swap and unprivileged,
  the base parameters are cores 1, memory 512, swap 512 and unprivileged 1.
\<close>

theorem create_defaults:
  "(arg_disks a = None \<and> arg_disk_size a = None \<and> arg_networks a = None \<and> arg_network a = None
    \<longrightarrow> (let props = LXCContainer cfg (LXCContainerArgs a); vm_id = chosen_vm_id props in
          props ''disks'' = Some (Dict [(''rootfs'', AStr ''local-lvm:8'')])
          \<and> props ''networks'' = Some (Dict [(''net0'', AStr ''name=eth0,bridge=vmbr0,ip=dhcp'')])
          \<and> (\<exists>body. create_params vm_id (create_kwargs props vm_id) = Inr body
             \<and> map_of body ''rootfs'' = Some (Atom (AStr ''local-lvm:8''))
             \<and> map_of body ''net0'' = Some (Atom (AStr ''name=eth0,bridge=vmbr0,ip=dhcp''))
             \<and> (arg_cores a = None \<longrightarrow> map_of body ''cores'' = Some (Atom (AInt 1)))
             \<and> (arg_memory a = None \<longrightarrow> map_of body ''memory'' = Some (Atom (AInt 512)))
             \<and> (arg_swap a = None \<longrightarrow> map_of body ''swap'' = Some (Atom (AInt 512)))
             \<and> (arg_unprivileged a = None \<longrightarrow> map_of body ''unprivileged'' = Some (Atom (AInt 1)))
             \<and> filter is_request (new_events w (snd (create_lxc srv node vm_id
                   (create_kwargs props vm_id) w)))
                 = [Request POST (''nodes/'' @ node @ ''/lxc'') (Some body)])))
   \<and> (vma_disks b = None \<and> vma_disk_size b = None \<and> vma_networks b = None \<and> vma_network b = None
    \<longrightarrow> (let props = VirtualMachine cfg (VirtualMachineArgs b); vm_id = chosen_vm props in
          props ''disks'' = Some (Dict [(''scsi0'', AStr ''local-lvm:20'')])
          \<and> props ''networks'' = Some (Dict [(''net0'', AStr ''virtio,bridge=vmbr0'')])
          \<and> (\<exists>body. vm_params vm_id (vm_kwargs props vm_id) = Inr body
             \<and> map_of body ''scsi0'' = Some (Atom (AStr ''local-lvm:20''))
             \<and> map_of body ''net0'' = Some (Atom (AStr ''virtio,bridge=vmbr0''))
             \<and> (vma_cores b = None \<longrightarrow> map_of body ''cores'' = Some (Atom (AInt 1)))
             \<and> (vma_memory b = None \<longrightarrow> map_of body ''memory'' = Some (Atom (AInt 512)))
             \<and> filter is_request (new_events w (snd (create_vm srv node vm_id
                   (vm_kwargs props vm_id) w)))
                 = [Request POST (''nodes/'' @ node @ ''/qemu'') (Some body)])))
   \<and> (py_int (chosen_vm_id props) = Inr n
      \<and> props ''cores'' = None \<and> props ''memory'' = None \<and> props ''swap'' = None
      \<and> props ''unprivileged'' = None
    \<longrightarrow> create_base (chosen_vm_id props) (create_kwargs props (chosen_vm_id props)) =
         Inr [(''vmid'', Atom (AInt n)), (''cores'', Atom (AInt 1)), (''memory'', Atom (AInt 512)),
              (''swap'', Atom (AInt 512)),
              (''hostname'', get_or props ''hostname''
                               (Atom (AStr (''lxc-'' @ py_str (chosen_vm_id props))))),
              (''unprivileged'', Atom (AInt 1))])"
proof (intro conjI impI)
  assume "arg_disks a = None \<and> arg_disk_size a = None \<and> arg_networks a = None \<and> arg_network a = None"
  then show "let props = LXCContainer cfg (LXCContainerArgs a); vm_id = chosen_vm_id props in
          props ''disks'' = Some (Dict [(''rootfs'', AStr ''local-lvm:8'')])
          \<and> props ''networks'' = Some (Dict [(''net0'', AStr ''name=eth0,bridge=vmbr0,ip=dhcp'')])
          \<and> (\<exists>body. create_params vm_id (create_kwargs props vm_id) = Inr body
             \<and> map_of body ''rootfs'' = Some (Atom (AStr ''local-lvm:8''))
             \<and> map_of body ''net0'' = Some (Atom (AStr ''name=eth0,bridge=vmbr0,ip=dhcp''))
             \<and> (arg_cores a = None \<longrightarrow> map_of body ''cores'' = Some (Atom (AInt 1)))
             \<and> (arg_memory a = None \<longrightarrow> map_of body ''memory'' = Some (Atom (AInt 512)))
             \<and> (arg_swap a = None \<longrightarrow> map_of body ''swap'' = Some (Atom (AInt 512)))
             \<and> (arg_unprivileged a = None \<longrightarrow> map_of body ''unprivileged'' = Some (Atom (AInt 1)))
             \<and> filter is_request (new_events w (snd (create_lxc srv node vm_id
                   (create_kwargs props vm_id) w)))
                 = [Request POST (''nodes/'' @ node @ ''/lxc'') (Some body)])"
    unfolding Let_def using lxc_defaults[of a cfg w srv node] by simp
next
  assume "vma_disks b = None \<and> vma_disk_size b = None \<and> vma_networks b = None \<and> vma_network b = None"
  then show "let props = VirtualMachine cfg (VirtualMachineArgs b); vm_id = chosen_vm props in
          props ''disks'' = Some (Dict [(''scsi0'', AStr ''local-lvm:20'')])
          \<and> props ''networks'' = Some (Dict [(''net0'', AStr ''virtio,bridge=vmbr0'')])
          \<and> (\<exists>body. vm_params vm_id (vm_kwargs props vm_id) = Inr body
             \<and> map_of body ''scsi0'' = Some (Atom (AStr ''local-lvm:20''))
             \<and> map_of body ''net0'' = Some (Atom (AStr ''virtio,bridge=vmbr0''))
             \<and> (vma_cores b = None \<longrightarrow> map_of body ''cores'' = Some (Atom (AInt 1)))
             \<and> (vma_memory b = None \<longrightarrow> map_of body ''memory'' = Some (Atom (AInt 512)))
             \<and> filter is_request (new_events w (snd (create_vm srv node vm_id
                   (vm_kwargs props vm_id) w)))
                 = [Request POST (''nodes/'' @ node @ ''/qemu'') (Some body)])"
    unfolding Let_def using vm_defaults[of b cfg w srv node] by simp
next
  assume "py_int (chosen_vm_id props) = Inr n
      \<and> props ''cores'' = None \<and> props ''memory'' = None \<and> props ''swap'' = None
      \<and> props ''unprivileged'' = None"
  then show "create_base (chosen_vm_id props) (create_kwargs props (chosen_vm_id props)) =
         Inr [(''vmid'', Atom (AInt n)), (''cores'', Atom (AInt 1)), (''memory'', Atom (AInt 512)),
              (''swap'', Atom (AInt 512)),
              (''hostname'', get_or props ''hostname''
                               (Atom (AStr (''lxc-'' @ py_str (chosen_vm_id props))))),
              (''unprivileged'', Atom (AInt 1))]"
    using create_base_omitted[of props n] by simp
qed

lemma create_example:
  "fst (create_lxc (\<lambda>i. if i = 0 then Inr (Response None) else Inl ''500 error'') ''pve''
          (Atom (AInt 215))
          (create_kwargs [''node'' \<mapsto> Atom (AStr ''pve''), ''vm_id'' \<mapsto> Atom (AInt 215)]
             (Atom (AInt 215)))
          \<lparr>calls = 0, trace = []\<rparr>) = Inr (Response None)"
  "calls (snd (create_lxc (\<lambda>i. if i = 0 then Inr (Response None) else Inl ''500 error'') ''pve''
          (Atom (AInt 215))
          (create_kwargs [''node'' \<mapsto> Atom (AStr ''pve''), ''vm_id'' \<mapsto> Atom (AInt 215)]
             (Atom (AInt 215)))
          \<lparr>calls = 0, trace = []\<rparr>)) = 1"
  "chosen_vm_id [''node'' \<mapsto> Atom (AStr ''pve''), ''vm_id'' \<mapsto> Atom (AInt 215)] = Atom (AInt 215)"
  "starts_on_create [''node'' \<mapsto> Atom (AStr ''pve''), ''vm_id'' \<mapsto> Atom (AInt 215)]"
  "str_int 215 = ''215''"
  by code_simp+





theorem create_defaults_witness:
  "LXCContainer
      \<lparr>cfg_endpoint = ''https://pve:8006/api2/json'', cfg_username = ''root@pam'',
       cfg_password = ''secret'', cfg_node = None, cfg_insecure = None\<rparr>
      (LXCContainerArgs
        \<lparr>arg_node = ''pve'', arg_vm_id = Some 215, arg_hostname = None, arg_template = None,
         arg_cores = None, arg_memory = None, arg_swap = None, arg_disks = None,
         arg_networks = None, arg_disk_size = None, arg_network = None, arg_ostemplate = None,
         arg_password = None, arg_ssh_public_keys = None, arg_unprivileged = None,
         arg_features = None, arg_startup = None, arg_onboot = None,
         arg_start_on_create = None\<rparr>) ''disks''
     = Some (Dict [(''rootfs'', AStr ''local-lvm:8'')])
   \<and> VirtualMachine
      \<lparr>cfg_endpoint = ''https://pve:8006/api2/json'', cfg_username = ''root@pam'',
       cfg_password = ''secret'', cfg_node = None, cfg_insecure = None\<rparr>
      (VirtualMachineArgs
        \<lparr>vma_node = ''pve'', vma_vm_id = None, vma_name = None, vma_template = None,
         vma_cores = None, vma_memory = None, vma_disks = None, vma_networks = None,
         vma_disk_size = None, vma_network = None, vma_ssh_keys = None, vma_ip_config = None,
         vma_user = None, vma_password = None\<rparr>) ''networks''
     = Some (Dict [(''net0'', AStr ''virtio,bridge=vmbr0'')])
   \<and> create_base (Atom (AInt 215))
        (create_kwargs [''node'' \<mapsto> Atom (AStr ''pve''), ''vm_id'' \<mapsto> Atom (AInt 215)]
           (Atom (AInt 215)))
     = Inr [(''vmid'', Atom (AInt 215)), (''cores'', Atom (AInt 1)), (''memory'', Atom (AInt 512)),
            (''swap'', Atom (AInt 512)), (''hostname'', Atom (AStr ''lxc-215'')),
            (''unprivileged'', Atom (AInt 1))]"
  using create_defaults[where
      a = "\<lparr>arg_node = ''pve'', arg_vm_id = Some 215, arg_hostname = None, arg_template = None,
         arg_cores = None, arg_memory = None, arg_swap = None, arg_disks = None,
         arg_networks = None, arg_disk_size = None, arg_network = None, arg_ostemplate = None,
         arg_password = None, arg_ssh_public_keys = None, arg_unprivileged = None,
         arg_features = None, arg_startup = None, arg_onboot = None,
         arg_start_on_create = None\<rparr>"
      and b = "\<lparr>vma_node = ''pve'', vma_vm_id = None, vma_name = None, vma_template = None,
         vma_cores = None, vma_memory = None, vma_disks = None, vma_networks = None,
         vma_disk_size = None, vma_network = None, vma_ssh_keys = None, vma_ip_config = None,
         vma_user = None, vma_password = None\<rparr>"
      and cfg = "\<lparr>cfg_endpoint = ''https://pve:8006/api2/json'', cfg_username = ''root@pam'',
       cfg_password = ''secret'', cfg_node = None, cfg_insecure = None\<rparr>"
      and props = "[''node'' \<mapsto> Atom (AStr ''pve''), ''vm_id'' \<mapsto> Atom (AInt 215)]"
      and n = 215]
  by (simp add: Let_def create_example get_or_def)

end
